theory Spec2Isabelle
  imports Complex_Main
begin

section \<open>Data model\<close>

text \<open>
  The service of \<^verbatim>\<open>src/soap_service.py\<close> (class \<^verbatim>\<open>CumRoadService\<close>) and its
  reduced sibling \<^verbatim>\<open>src/simple_soap_service.py\<close> (class \<^verbatim>\<open>CumRoadSOAPService\<close>)
  work on one SQLite file with three tables. A table is the list of its rows in rowid
  order; \<^verbatim>\<open>fetchone()\<close> is the first matching row, \<^verbatim>\<open>fetchall()\<close> all of them.

  Conventions of the embedding:
  \<^item> a Python \<^verbatim>\<open>str\<close> is a \<open>string\<close>, one \<open>char\<close> standing for one code point;
    an optional SOAP element is an \<open>option\<close>, \<open>None\<close> being Python's \<^verbatim>\<open>None\<close>;
  \<^item> integers are unbounded (\<open>int\<close>), as Python's are; \<^verbatim>\<open>sqlite3\<close> raises
    \<^verbatim>\<open>OverflowError\<close> when it is to bind one that does not fit a 64-bit \<^verbatim>\<open>INTEGER\<close>, which
    \<^verbatim>\<open>CreateOrder\<close> and \<^verbatim>\<open>UpdateOrder\<close> model for every integer they bind from the request
    and the token (the integers of a row always fit);
  \<^item> a \<^verbatim>\<open>Double\<close>/\<^verbatim>\<open>REAL\<close> is the \<open>real\<close> that the double stands for (the non-finite
    values are not modelled); arithmetic on doubles is not arithmetic on reals, so the
    one product the handlers compute is a parameter, \<open>float_mul\<close> below;
  \<^item> a timestamp is a number of seconds (\<open>nat\<close>); \<^verbatim>\<open>CURRENT_TIMESTAMP\<close> and
    \<^verbatim>\<open>datetime.utcnow()\<close> read the clock value \<open>now\<close> that every operation receives, and
    \<^verbatim>\<open>_datetime_from_string\<close> returns the stored timestamp (the stored text is always the
    one \<^verbatim>\<open>CURRENT_TIMESTAMP\<close> wrote);
  \<^item> an operation that can write returns its outcome together with the database it leaves
    behind, so that a failure after a committed write keeps the write;
  \<^item> a handler is modelled from the point where it has its arguments: the input object
    and the id are there (their fields may be absent), the token may be absent.
\<close>

type_synonym timestamp = nat

record user_row =
  u_id :: int
  u_email :: string
  u_password_hash :: string
  u_name :: string
  u_role :: string
  u_created_at :: timestamp
  u_updated_at :: timestamp

text \<open>Class \<^verbatim>\<open>User\<close>, and the dictionary that \<^verbatim>\<open>_get_user_by_id\<close> builds: a user row
  without its password digest.\<close>

record user =
  id' :: int
  email :: string
  name :: string
  role :: string
  created_at :: timestamp
  updated_at :: timestamp

text \<open>Class \<^verbatim>\<open>UserWithToken\<close>.\<close>

record user_with_token = user +
  token :: string

text \<open>Classes \<^verbatim>\<open>UserInput\<close>, \<^verbatim>\<open>UserUpdateInput\<close> and \<^verbatim>\<open>LoginInput\<close>.\<close>

record user_input =
  ui_email :: "string option"
  ui_password :: "string option"
  ui_name :: "string option"

record user_update_input =
  uu_name :: "string option"
  uu_password :: "string option"

record login_input =
  li_email :: "string option"
  li_password :: "string option"

text \<open>Class \<^verbatim>\<open>Product\<close>, which is also a row of table \<^verbatim>\<open>products\<close>; the columns
  \<^verbatim>\<open>description\<close> and \<^verbatim>\<open>image_url\<close> are nullable.\<close>

record product =
  p_id :: int
  p_name :: string
  p_description :: "string option"
  p_price :: real
  p_image_url :: "string option"
  p_user_id :: int
  p_created_at :: timestamp
  p_updated_at :: timestamp

text \<open>Classes \<^verbatim>\<open>ProductInput\<close> and \<^verbatim>\<open>ProductUpdateInput\<close> (the same four fields).\<close>

record product_input =
  pi_name :: "string option"
  pi_description :: "string option"
  pi_price :: "real option"
  pi_image_url :: "string option"

text \<open>A row of table \<^verbatim>\<open>orders\<close>, and class \<^verbatim>\<open>Order\<close>: the row with the product joined
  to it when it is read.\<close>

record order_row =
  o_id :: int
  o_user_id :: int
  o_product_id :: int
  o_quantity :: int
  o_total_price :: real
  o_status :: string
  o_created_at :: timestamp
  o_updated_at :: timestamp

record order = order_row +
  o_product :: product

text \<open>Classes \<^verbatim>\<open>OrderInput\<close> and \<^verbatim>\<open>OrderUpdateInput\<close>.\<close>

record order_input =
  oi_product_id :: "int option"
  oi_quantity :: "int option"

record order_update_input =
  ou_quantity :: "int option"
  ou_status :: "string option"

text \<open>The database file: the three tables and, for each, the counter that
  \<^verbatim>\<open>AUTOINCREMENT\<close> keeps in \<^verbatim>\<open>sqlite_sequence\<close>.\<close>

record db =
  users :: "user_row list"
  products :: "product list"
  orders :: "order_row list"
  users_seq :: int
  products_seq :: int
  orders_seq :: int

text \<open>The payload of a token, as \<^verbatim>\<open>generate_token\<close> builds it.\<close>

record claims =
  user_id :: int
  c_email :: string
  c_exp :: timestamp

text \<open>
  What the service takes from outside the repository: the signing secret
  (\<^verbatim>\<open>JWT_SECRET\<close>, read from the environment), \<^verbatim>\<open>hashlib.sha256(...).hexdigest()\<close>,
  \<^verbatim>\<open>jwt.encode\<close>, \<^verbatim>\<open>jwt.decode\<close> and Python's \<^verbatim>\<open>float(...)\<close> on a string. They are
  parameters of the model. \<open>jwt_decode\<close> receives the token, the key and the current
  time, and is \<open>None\<close> where the library raises \<^verbatim>\<open>ExpiredSignatureError\<close> or
  \<^verbatim>\<open>InvalidTokenError\<close>; \<open>float\<close> is \<open>None\<close> where Python raises \<^verbatim>\<open>ValueError\<close>.
  \<open>float_mul x n\<close> is Python's \<^verbatim>\<open>x * n\<close> for a float \<open>x\<close> and an int \<open>n\<close>: the double that
  IEEE arithmetic gives, which is not the product over the reals in general (for 0.1 and
  3 it is 0.30000000000000004).
\<close>

record env =
  JWT_SECRET :: string
  sha256_hexdigest :: "string \<Rightarrow> string"
  jwt_encode :: "claims \<Rightarrow> string \<Rightarrow> string"
  jwt_decode :: "string \<Rightarrow> string \<Rightarrow> timestamp \<Rightarrow> claims option"
  float :: "string \<Rightarrow> real option"
  float_mul :: "real \<Rightarrow> int \<Rightarrow> real"

text \<open>
  A failure: the \<^verbatim>\<open>Fault\<close> that is raised or returned (fault code, fault string,
  detail), or a Python exception that no handler of the service catches.
\<close>

datatype fault =
  Fault string string "string option"
  | TypeError
  | IntegrityError
  | OverflowError

section \<open>Helpers\<close>

text \<open>Python truthiness of an optional string and of an optional number.\<close>

fun truthy_str :: "string option \<Rightarrow> bool" where
  "truthy_str None = False"
| "truthy_str (Some s) = (s \<noteq> [])"

fun truthy_int :: "int option \<Rightarrow> bool" where
  "truthy_int None = False"
| "truthy_int (Some n) = (n \<noteq> 0)"

fun truthy_float :: "real option \<Rightarrow> bool" where
  "truthy_float None = False"
| "truthy_float (Some x) = (x \<noteq> 0)"

text \<open>\<^verbatim>\<open>s.split('@')[0]\<close>: the text before the first \<^verbatim>\<open>@\<close>, all of \<open>s\<close> when it has
  none.\<close>

definition split_at_0 :: "string \<Rightarrow> string" where
  "split_at_0 s = takeWhile (\<lambda>c. c \<noteq> CHR ''@'') s"

text \<open>\<^verbatim>\<open>cursor.lastrowid\<close> after an insert into an \<^verbatim>\<open>AUTOINCREMENT\<close> table: one more than
  the largest rowid the table holds or has ever held.\<close>

definition lastrowid :: "int \<Rightarrow> int list \<Rightarrow> int" where
  "lastrowid seq ids = fold max ids seq + 1"

text \<open>The Python ints that \<^verbatim>\<open>sqlite3\<close> can bind to a statement parameter: those of a 64-bit
  \<^verbatim>\<open>INTEGER\<close>. For any other, \<^verbatim>\<open>cursor.execute\<close> raises \<^verbatim>\<open>OverflowError\<close> and the statement
  does not run.\<close>

definition sqlite_integer :: "int \<Rightarrow> bool" where
  "sqlite_integer i \<longleftrightarrow> - 9223372036854775808 \<le> i \<and> i \<le> 9223372036854775807"

subsection \<open>\<^verbatim>\<open>AuthManager\<close>\<close>

definition hash_password :: "env \<Rightarrow> string \<Rightarrow> string" where
  "hash_password env password = sha256_hexdigest env password"

definition verify_password :: "env \<Rightarrow> string \<Rightarrow> string \<Rightarrow> bool" where
  "verify_password env password hash = (hash_password env password = hash)"

definition generate_token :: "env \<Rightarrow> timestamp \<Rightarrow> int \<Rightarrow> string \<Rightarrow> string" where
  "generate_token env now uid mail =
     jwt_encode env \<lparr>user_id = uid, c_email = mail, c_exp = now + 86400\<rparr> (JWT_SECRET env)"

definition verify_token :: "env \<Rightarrow> timestamp \<Rightarrow> string \<Rightarrow> claims option" where
  "verify_token env now tok = jwt_decode env tok (JWT_SECRET env) now"

subsection \<open>\<^verbatim>\<open>CumRoadService\<close>: faults, authentication, user lookup\<close>

text \<open>\<^verbatim>\<open>_raise_soap_fault\<close> fills a \<^verbatim>\<open>ServiceFault\<close> that it then drops: what it raises is
  \<^verbatim>\<open>Fault('Client', detail)\<close>.\<close>

definition raise_soap_fault ::
  "nat \<Rightarrow> string \<Rightarrow> string \<Rightarrow> nat option \<Rightarrow> string option \<Rightarrow> fault" where
  "raise_soap_fault status title detail code field = Fault ''Client'' detail None"

text \<open>The faults of the service, by the name the specification gives them.\<close>

definition AuthenticationRequired :: fault where
  "AuthenticationRequired =
     raise_soap_fault 401 ''Authentication Required'' ''Authentication token is required''
       (Some 2001) None"

definition InvalidToken :: fault where
  "InvalidToken =
     raise_soap_fault 401 ''Invalid Token'' ''Authentication token is invalid or expired''
       (Some 2002) None"

definition Unauthorized :: fault where
  "Unauthorized =
     raise_soap_fault 403 ''Unauthorized'' ''Not authorized to perform this action''
       (Some 2003) None"

definition ValidationError :: "string \<Rightarrow> fault" where
  "ValidationError detail = raise_soap_fault 400 ''Validation Error'' detail (Some 1001) None"

definition InvalidPassword :: fault where
  "InvalidPassword =
     raise_soap_fault 422 ''Invalid Password'' ''Password must be at least 8 characters long''
       (Some 1002) (Some ''password'')"

definition EmailAlreadyRegistered :: fault where
  "EmailAlreadyRegistered =
     raise_soap_fault 409 ''Email Already Registered''
       ''The email address is already registered'' (Some 1003) (Some ''email'')"

definition InvalidCredentials :: fault where
  "InvalidCredentials =
     raise_soap_fault 401 ''Invalid Credentials'' ''Invalid email or password'' (Some 2001) None"

definition ResourceNotFound :: "string \<Rightarrow> fault" where
  "ResourceNotFound what =
     raise_soap_fault 404 ''Resource Not Found''
       (''The requested '' @ what @ '' was not found'') (Some 3001) None"

definition authenticate_user :: "env \<Rightarrow> timestamp \<Rightarrow> string option \<Rightarrow> fault + claims" where
  "authenticate_user env now tok =
     (if \<not> truthy_str tok then Inl AuthenticationRequired
      else case verify_token env now (the tok) of
             None \<Rightarrow> Inl InvalidToken
           | Some payload \<Rightarrow> Inr payload)"

definition user_of_row :: "user_row \<Rightarrow> user" where
  "user_of_row r =
     \<lparr>id' = u_id r, email = u_email r, name = u_name r, role = u_role r,
      created_at = u_created_at r, updated_at = u_updated_at r\<rparr>"

definition get_user_by_id :: "db \<Rightarrow> int \<Rightarrow> user option" where
  "get_user_by_id d uid = map_option user_of_row (find (\<lambda>r. u_id r = uid) (users d))"

section \<open>User operations\<close>

definition GetAllUsers :: "db \<Rightarrow> user list" where
  "GetAllUsers d = map user_of_row (users d)"

definition CreateUser :: "env \<Rightarrow> timestamp \<Rightarrow> db \<Rightarrow> user_input \<Rightarrow> (fault + user) \<times> db" where
  "CreateUser env now d user_input =
     (if \<not> truthy_str (ui_email user_input) \<or> \<not> truthy_str (ui_password user_input)
      then (Inl (ValidationError ''Email and password are required''), d)
      else if length (the (ui_password user_input)) < 8
      then (Inl InvalidPassword, d)
      else if find (\<lambda>r. u_email r = the (ui_email user_input)) (users d) \<noteq> None
      then (Inl EmailAlreadyRegistered, d)
      else
        let password_hash = hash_password env (the (ui_password user_input));
            nm = (if truthy_str (ui_name user_input) then the (ui_name user_input)
                  else split_at_0 (the (ui_email user_input)));
            uid = lastrowid (users_seq d) (map u_id (users d));
            d' = d\<lparr>users := users d @
                        [\<lparr>u_id = uid, u_email = the (ui_email user_input),
                          u_password_hash = password_hash, u_name = nm, u_role = ''user'',
                          u_created_at = now, u_updated_at = now\<rparr>],
                    users_seq := uid\<rparr>
        in case get_user_by_id d' uid of
             None \<Rightarrow> (Inl TypeError, d')
           | Some user_data \<Rightarrow> (Inr user_data, d'))"

text \<open>The \<^verbatim>\<open>UPDATE users SET ... WHERE id = ?\<close> that \<^verbatim>\<open>UpdateUser\<close> assembles: the
  columns whose new value is \<open>Some\<close> are set, \<^verbatim>\<open>updated_at\<close> with them, in every row with
  that id.\<close>

definition set_user ::
  "string option \<Rightarrow> string option \<Rightarrow> timestamp \<Rightarrow> user_row \<Rightarrow> user_row" where
  "set_user new_name new_hash now r =
     r\<lparr>u_name := (case new_name of None \<Rightarrow> u_name r | Some n \<Rightarrow> n),
       u_password_hash := (case new_hash of None \<Rightarrow> u_password_hash r | Some h \<Rightarrow> h),
       u_updated_at := now\<rparr>"

definition update_users ::
  "int \<Rightarrow> string option \<Rightarrow> string option \<Rightarrow> timestamp \<Rightarrow> user_row list \<Rightarrow> user_row list" where
  "update_users uid new_name new_hash now rows =
     map (\<lambda>r. if u_id r = uid then set_user new_name new_hash now r else r) rows"

definition UpdateUser ::
  "env \<Rightarrow> timestamp \<Rightarrow> db \<Rightarrow> int \<Rightarrow> user_update_input \<Rightarrow> string option \<Rightarrow> (fault + user) \<times> db" where
  "UpdateUser env now d uid user_update tok =
     (case authenticate_user env now tok of
        Inl f \<Rightarrow> (Inl f, d)
      | Inr payload \<Rightarrow>
         (case get_user_by_id d uid of
            None \<Rightarrow> (Inl (ResourceNotFound ''user''), d)
          | Some user_data \<Rightarrow>
             if user_id payload \<noteq> uid \<and> role user_data \<noteq> ''admin''
             then (Inl Unauthorized, d)
             else if truthy_str (uu_password user_update)
                     \<and> length (the (uu_password user_update)) < 8
             then (Inl InvalidPassword, d)
             else
               let new_name = (if truthy_str (uu_name user_update)
                               then uu_name user_update else None);
                   new_hash = (if truthy_str (uu_password user_update)
                               then Some (hash_password env (the (uu_password user_update)))
                               else None);
                   d' = (if new_name \<noteq> None \<or> new_hash \<noteq> None
                         then d\<lparr>users := update_users uid new_name new_hash now (users d)\<rparr>
                         else d)
               in (case get_user_by_id d' uid of
                     None \<Rightarrow> (Inl TypeError, d')
                   | Some u \<Rightarrow> (Inr u, d'))))"

definition DeleteUser ::
  "env \<Rightarrow> timestamp \<Rightarrow> db \<Rightarrow> int \<Rightarrow> string option \<Rightarrow> (fault + unit) \<times> db" where
  "DeleteUser env now d uid tok =
     (case authenticate_user env now tok of
        Inl f \<Rightarrow> (Inl f, d)
      | Inr payload \<Rightarrow>
         (case get_user_by_id d uid of
            None \<Rightarrow> (Inl (ResourceNotFound ''user''), d)
          | Some user_data \<Rightarrow>
             if user_id payload \<noteq> uid \<and> role user_data \<noteq> ''admin''
             then (Inl Unauthorized, d)
             else (Inr (), d\<lparr>users := filter (\<lambda>r. u_id r \<noteq> uid) (users d)\<rparr>)))"

definition Login :: "env \<Rightarrow> timestamp \<Rightarrow> db \<Rightarrow> login_input \<Rightarrow> fault + user_with_token" where
  "Login env now d credentials =
     (if \<not> truthy_str (li_email credentials) \<or> \<not> truthy_str (li_password credentials)
      then Inl (ValidationError ''Email and password are required'')
      else case find (\<lambda>r. u_email r = the (li_email credentials)) (users d) of
             None \<Rightarrow> Inl InvalidCredentials
           | Some row \<Rightarrow>
               if \<not> verify_password env (the (li_password credentials)) (u_password_hash row)
               then Inl InvalidCredentials
               else Inr \<lparr>id' = u_id row, email = u_email row, name = u_name row,
                         role = u_role row, created_at = u_created_at row,
                         updated_at = u_updated_at row,
                         token = generate_token env now (u_id row) (u_email row)\<rparr>)"

section \<open>Product operations\<close>

text \<open>\<^verbatim>\<open>x or ''\<close> on an optional string.\<close>

fun or_empty :: "string option \<Rightarrow> string" where
  "or_empty None = []"
| "or_empty (Some s) = s"

definition CreateProduct ::
  "env \<Rightarrow> timestamp \<Rightarrow> db \<Rightarrow> product_input \<Rightarrow> string option \<Rightarrow> (fault + product) \<times> db" where
  "CreateProduct env now d product_input tok =
     (case authenticate_user env now tok of
        Inl f \<Rightarrow> (Inl f, d)
      | Inr payload \<Rightarrow>
         if \<not> truthy_str (pi_name product_input) \<or> \<not> truthy_float (pi_price product_input)
         then (Inl (ValidationError ''Name and price are required''), d)
         else
           let pid = lastrowid (products_seq d) (map p_id (products d));
               d' = d\<lparr>products := products d @
                          [\<lparr>p_id = pid, p_name = the (pi_name product_input),
                            p_description = Some (or_empty (pi_description product_input)),
                            p_price = the (pi_price product_input),
                            p_image_url = Some (or_empty (pi_image_url product_input)),
                            p_user_id = user_id payload,
                            p_created_at = now, p_updated_at = now\<rparr>],
                      products_seq := pid\<rparr>
           in (case find (\<lambda>p. p_id p = pid) (products d') of
                 None \<Rightarrow> (Inl TypeError, d')
               | Some row \<Rightarrow> (Inr row, d')))"

text \<open>The \<^verbatim>\<open>UPDATE products SET ... WHERE id = ?\<close> that \<^verbatim>\<open>UpdateProduct\<close> assembles.\<close>

definition set_product ::
  "string option \<Rightarrow> string option \<Rightarrow> real option \<Rightarrow> string option \<Rightarrow> timestamp
     \<Rightarrow> product \<Rightarrow> product" where
  "set_product new_name new_description new_price new_image_url now r =
     r\<lparr>p_name := (case new_name of None \<Rightarrow> p_name r | Some n \<Rightarrow> n),
       p_description := (case new_description of None \<Rightarrow> p_description r | Some x \<Rightarrow> Some x),
       p_price := (case new_price of None \<Rightarrow> p_price r | Some x \<Rightarrow> x),
       p_image_url := (case new_image_url of None \<Rightarrow> p_image_url r | Some x \<Rightarrow> Some x),
       p_updated_at := now\<rparr>"

definition update_products ::
  "int \<Rightarrow> string option \<Rightarrow> string option \<Rightarrow> real option \<Rightarrow> string option \<Rightarrow> timestamp
     \<Rightarrow> product list \<Rightarrow> product list" where
  "update_products pid new_name new_description new_price new_image_url now rows =
     map (\<lambda>r. if p_id r = pid
               then set_product new_name new_description new_price new_image_url now r
               else r) rows"

definition UpdateProduct ::
  "env \<Rightarrow> timestamp \<Rightarrow> db \<Rightarrow> int \<Rightarrow> product_input \<Rightarrow> string option \<Rightarrow> (fault + product) \<times> db" where
  "UpdateProduct env now d pid product_update tok =
     (case authenticate_user env now tok of
        Inl f \<Rightarrow> (Inl f, d)
      | Inr payload \<Rightarrow>
         (case find (\<lambda>p. p_id p = pid) (products d) of
            None \<Rightarrow> (Inl (ResourceNotFound ''product''), d)
          | Some row \<Rightarrow>
             if p_user_id row \<noteq> user_id payload then (Inl Unauthorized, d)
             else
               let new_name = (if truthy_str (pi_name product_update)
                               then pi_name product_update else None);
                   new_description = pi_description product_update;
                   new_price = (if truthy_float (pi_price product_update)
                                then pi_price product_update else None);
                   new_image_url = pi_image_url product_update;
                   d' = (if new_name \<noteq> None \<or> new_description \<noteq> None
                            \<or> new_price \<noteq> None \<or> new_image_url \<noteq> None
                         then d\<lparr>products :=
                                  update_products pid new_name new_description new_price
                                    new_image_url now (products d)\<rparr>
                         else d)
               in (case find (\<lambda>p. p_id p = pid) (products d') of
                     None \<Rightarrow> (Inl TypeError, d')
                   | Some row' \<Rightarrow> (Inr row', d'))))"

definition DeleteProduct ::
  "env \<Rightarrow> timestamp \<Rightarrow> db \<Rightarrow> int \<Rightarrow> string option \<Rightarrow> (fault + unit) \<times> db" where
  "DeleteProduct env now d pid tok =
     (case authenticate_user env now tok of
        Inl f \<Rightarrow> (Inl f, d)
      | Inr payload \<Rightarrow>
         (case find (\<lambda>p. p_id p = pid) (products d) of
            None \<Rightarrow> (Inl (ResourceNotFound ''product''), d)
          | Some row \<Rightarrow>
             if p_user_id row \<noteq> user_id payload then (Inl Unauthorized, d)
             else (Inr (), d\<lparr>products := filter (\<lambda>p. p_id p \<noteq> pid) (products d)\<rparr>)))"

section \<open>Order operations\<close>

text \<open>
  \<^verbatim>\<open>SELECT o.*, p.* FROM orders o JOIN products p ON o.product_id = p.id WHERE ...\<close>:
  every order row that passes the \<^verbatim>\<open>WHERE\<close> clause, paired with every product row whose
  id is the order's \<open>product_id\<close>. An order whose product row is gone yields no row.
\<close>

definition order_of :: "order_row \<Rightarrow> product \<Rightarrow> order" where
  "order_of r p =
     \<lparr>o_id = o_id r, o_user_id = o_user_id r, o_product_id = o_product_id r,
      o_quantity = o_quantity r, o_total_price = o_total_price r, o_status = o_status r,
      o_created_at = o_created_at r, o_updated_at = o_updated_at r, o_product = p\<rparr>"

definition select_orders_join :: "db \<Rightarrow> (order_row \<Rightarrow> bool) \<Rightarrow> order list" where
  "select_orders_join d cond =
     concat (map (\<lambda>r. map (order_of r) (filter (\<lambda>p. p_id p = o_product_id r) (products d)))
                 (filter cond (orders d)))"

definition GetAllOrders :: "env \<Rightarrow> timestamp \<Rightarrow> db \<Rightarrow> string option \<Rightarrow> fault + order list" where
  "GetAllOrders env now d tok =
     (case authenticate_user env now tok of
        Inl f \<Rightarrow> Inl f
      | Inr payload \<Rightarrow> Inr (select_orders_join d (\<lambda>r. o_user_id r = user_id payload)))"

text \<open>
  \<^verbatim>\<open>CreateOrder\<close> binds the product id to its first \<^verbatim>\<open>SELECT\<close>, and the caller's id, the
  product id and the quantity to its \<^verbatim>\<open>INSERT\<close>; an integer that does not fit ends the call
  in \<^verbatim>\<open>OverflowError\<close> before the row is written. (For a quantity beyond the range of a
  double the product \<^verbatim>\<open>price * quantity\<close> already raises \<^verbatim>\<open>OverflowError\<close>, also before the
  \<^verbatim>\<open>INSERT\<close>.) The total is the double product \<open>float_mul\<close>.
\<close>

definition CreateOrder ::
  "env \<Rightarrow> timestamp \<Rightarrow> db \<Rightarrow> order_input \<Rightarrow> string option \<Rightarrow> (fault + order) \<times> db" where
  "CreateOrder env now d order_input tok =
     (case authenticate_user env now tok of
        Inl f \<Rightarrow> (Inl f, d)
      | Inr payload \<Rightarrow>
         if \<not> truthy_int (oi_product_id order_input) \<or> \<not> truthy_int (oi_quantity order_input)
            \<or> the (oi_quantity order_input) < 1
         then (Inl (ValidationError ''Product ID and quantity (>= 1) are required''), d)
         else if \<not> sqlite_integer (the (oi_product_id order_input))
         then (Inl OverflowError, d)
         else
           (case find (\<lambda>p. p_id p = the (oi_product_id order_input)) (products d) of
              None \<Rightarrow> (Inl (ResourceNotFound ''product''), d)
            | Some product_row \<Rightarrow>
               if \<not> sqlite_integer (user_id payload)
                  \<or> \<not> sqlite_integer (the (oi_quantity order_input))
               then (Inl OverflowError, d)
               else
                 let total_price =
                       float_mul env (p_price product_row) (the (oi_quantity order_input));
                     oid = lastrowid (orders_seq d) (map o_id (orders d));
                     d' = d\<lparr>orders := orders d @
                                [\<lparr>o_id = oid, o_user_id = user_id payload,
                                  o_product_id = the (oi_product_id order_input),
                                  o_quantity = the (oi_quantity order_input),
                                  o_total_price = total_price, o_status = ''pending'',
                                  o_created_at = now, o_updated_at = now\<rparr>],
                            orders_seq := oid\<rparr>
                 in (case select_orders_join d' (\<lambda>r. o_id r = oid) of
                       [] \<Rightarrow> (Inl TypeError, d')
                     | row # _ \<Rightarrow> (Inr row, d'))))"

definition GetOrderById ::
  "env \<Rightarrow> timestamp \<Rightarrow> db \<Rightarrow> int \<Rightarrow> string option \<Rightarrow> fault + order" where
  "GetOrderById env now d oid tok =
     (case authenticate_user env now tok of
        Inl f \<Rightarrow> Inl f
      | Inr payload \<Rightarrow>
         (case select_orders_join d (\<lambda>r. o_id r = oid \<and> o_user_id r = user_id payload) of
            [] \<Rightarrow> Inl (ResourceNotFound ''order'')
          | row # _ \<Rightarrow> Inr row))"

text \<open>The \<^verbatim>\<open>UPDATE orders SET ... WHERE id = ?\<close> that \<^verbatim>\<open>UpdateOrder\<close> assembles.\<close>

definition set_order ::
  "int option \<Rightarrow> real option \<Rightarrow> string option \<Rightarrow> timestamp \<Rightarrow> order_row \<Rightarrow> order_row" where
  "set_order new_quantity new_total new_status now r =
     r\<lparr>o_quantity := (case new_quantity of None \<Rightarrow> o_quantity r | Some q \<Rightarrow> q),
       o_total_price := (case new_total of None \<Rightarrow> o_total_price r | Some x \<Rightarrow> x),
       o_status := (case new_status of None \<Rightarrow> o_status r | Some s \<Rightarrow> s),
       o_updated_at := now\<rparr>"

definition update_orders ::
  "int \<Rightarrow> int option \<Rightarrow> real option \<Rightarrow> string option \<Rightarrow> timestamp
     \<Rightarrow> order_row list \<Rightarrow> order_row list" where
  "update_orders oid new_quantity new_total new_status now rows =
     map (\<lambda>r. if o_id r = oid then set_order new_quantity new_total new_status now r else r)
       rows"

text \<open>
  \<^verbatim>\<open>UpdateOrder\<close> binds the order id to its first \<^verbatim>\<open>SELECT\<close>, and an accepted quantity to
  its \<^verbatim>\<open>UPDATE\<close>; an integer that does not fit ends the call in \<^verbatim>\<open>OverflowError\<close> with
  nothing written. (For a quantity beyond the range of a double the product
  \<^verbatim>\<open>price * quantity\<close> already raises it, before the \<^verbatim>\<open>UPDATE\<close>.) The new total is the double
  product \<open>float_mul\<close>.
\<close>

definition UpdateOrder ::
  "env \<Rightarrow> timestamp \<Rightarrow> db \<Rightarrow> int \<Rightarrow> order_update_input \<Rightarrow> string option
     \<Rightarrow> (fault + order) \<times> db" where
  "UpdateOrder env now d oid order_update tok =
     (case authenticate_user env now tok of
        Inl f \<Rightarrow> (Inl f, d)
      | Inr payload \<Rightarrow>
         if \<not> sqlite_integer oid then (Inl OverflowError, d)
         else
         (case find (\<lambda>r. o_id r = oid) (orders d) of
            None \<Rightarrow> (Inl (ResourceNotFound ''order''), d)
          | Some row \<Rightarrow>
             if o_user_id row \<noteq> user_id payload then (Inl Unauthorized, d)
             else
               let current_product_id = o_product_id row;
                   new_quantity = (if truthy_int (ou_quantity order_update)
                                      \<and> the (ou_quantity order_update) \<ge> 1
                                   then ou_quantity order_update else None);
                   new_total =
                     (case new_quantity of
                        None \<Rightarrow> None
                      | Some current_quantity \<Rightarrow>
                         (case find (\<lambda>p. p_id p = current_product_id) (products d) of
                            None \<Rightarrow> None
                          | Some price_row \<Rightarrow>
                              Some (float_mul env (p_price price_row) current_quantity)));
                   new_status = (if truthy_str (ou_status order_update)
                                    \<and> the (ou_status order_update)
                                        \<in> set [''pending'', ''completed'', ''cancelled'']
                                 then ou_status order_update else None)
               in if new_quantity \<noteq> None \<and> \<not> sqlite_integer (the new_quantity)
                  then (Inl OverflowError, d)
                  else
                    let d' = (if new_quantity \<noteq> None \<or> new_status \<noteq> None
                              then d\<lparr>orders :=
                                       update_orders oid new_quantity new_total new_status now
                                         (orders d)\<rparr>
                              else d)
                    in (case select_orders_join d' (\<lambda>r. o_id r = oid) of
                          [] \<Rightarrow> (Inl TypeError, d')
                        | row' # _ \<Rightarrow> (Inr row', d'))))"

definition DeleteOrder ::
  "env \<Rightarrow> timestamp \<Rightarrow> db \<Rightarrow> int \<Rightarrow> string option \<Rightarrow> (fault + unit) \<times> db" where
  "DeleteOrder env now d oid tok =
     (case authenticate_user env now tok of
        Inl f \<Rightarrow> (Inl f, d)
      | Inr payload \<Rightarrow>
         (case find (\<lambda>r. o_id r = oid) (orders d) of
            None \<Rightarrow> (Inl (ResourceNotFound ''order''), d)
          | Some row \<Rightarrow>
             if o_user_id row \<noteq> user_id payload then (Inl Unauthorized, d)
             else (Inr (), d\<lparr>orders := filter (\<lambda>r. o_id r \<noteq> oid) (orders d)\<rparr>)))"

section \<open>The reduced service of \<^verbatim>\<open>simple_soap_service.py\<close>\<close>

text \<open>
  \<^verbatim>\<open>parse_soap_request\<close> hands each handler a dictionary from element names to element
  texts; the text of an empty element is \<^verbatim>\<open>None\<close>. The dictionary is a map to optional
  strings: \<open>m k = None\<close> when the element is absent, \<open>m k = Some None\<close> when it is there
  and empty. The handlers return the fault or the response as XML text; the model returns
  the fault (code, string, detail) or the row that the response prints.
\<close>

type_synonym params = "string \<rightharpoonup> string option"

text \<open>\<^verbatim>\<open>d.get(k)\<close> and \<^verbatim>\<open>d.get(k, default)\<close>.\<close>

definition dict_get :: "params \<Rightarrow> string \<Rightarrow> string option" where
  "dict_get m k = (case m k of None \<Rightarrow> None | Some v \<Rightarrow> v)"

definition dict_get_default :: "params \<Rightarrow> string \<Rightarrow> string option \<Rightarrow> string option" where
  "dict_get_default m k dflt = (case m k of None \<Rightarrow> dflt | Some v \<Rightarrow> v)"

definition create_soap_fault :: "string \<Rightarrow> string \<Rightarrow> string \<Rightarrow> fault" where
  "create_soap_fault fault_code fault_string detail = Fault fault_code fault_string (Some detail)"

text \<open>Column \<^verbatim>\<open>users.name\<close> is \<^verbatim>\<open>NOT NULL\<close>: inserting \<^verbatim>\<open>None\<close> raises
  \<^verbatim>\<open>sqlite3.IntegrityError\<close> and writes nothing.\<close>

definition create_user :: "env \<Rightarrow> timestamp \<Rightarrow> db \<Rightarrow> params \<Rightarrow> (fault + user) \<times> db" where
  "create_user env now d user_data =
     (let mail = dict_get user_data ''email'';
          password = dict_get user_data ''password'';
          nm = dict_get_default user_data ''name''
                 (Some (if truthy_str mail then split_at_0 (the mail) else ''User''))
      in if \<not> truthy_str mail \<or> \<not> truthy_str password
         then (Inl (create_soap_fault ''Client'' ''Validation Error''
                      ''Email and password are required''), d)
         else if length (the password) < 8
         then (Inl (create_soap_fault ''Client'' ''Invalid Password''
                      ''Password must be at least 8 characters long''), d)
         else if find (\<lambda>r. u_email r = the mail) (users d) \<noteq> None
         then (Inl (create_soap_fault ''Client'' ''Email Already Registered''
                      ''The email address is already registered''), d)
         else
           (case nm of
              None \<Rightarrow> (Inl IntegrityError, d)
            | Some n \<Rightarrow>
               let password_hash = hash_password env (the password);
                   uid = lastrowid (users_seq d) (map u_id (users d));
                   d' = d\<lparr>users := users d @
                              [\<lparr>u_id = uid, u_email = the mail,
                                u_password_hash = password_hash, u_name = n,
                                u_role = ''user'', u_created_at = now, u_updated_at = now\<rparr>],
                          users_seq := uid\<rparr>
               in (case get_user_by_id d' uid of
                     None \<Rightarrow> (Inl TypeError, d')
                   | Some u \<Rightarrow> (Inr u, d'))))"

definition create_product ::
  "env \<Rightarrow> timestamp \<Rightarrow> db \<Rightarrow> params \<Rightarrow> string option \<Rightarrow> (fault + product) \<times> db" where
  "create_product env now d product_data tok =
     (if \<not> truthy_str tok
      then (Inl (create_soap_fault ''Client'' ''Authentication Required''
                   ''Authentication token is required''), d)
      else
        (case verify_token env now (the tok) of
           None \<Rightarrow> (Inl (create_soap_fault ''Client'' ''Invalid Token''
                          ''Authentication token is invalid or expired''), d)
         | Some payload \<Rightarrow>
            let nm = dict_get product_data ''name'';
                description = dict_get_default product_data ''description'' (Some []);
                price = dict_get product_data ''price'';
                image_url = dict_get_default product_data ''image_url'' (Some [])
            in if \<not> truthy_str nm \<or> \<not> truthy_str price
               then (Inl (create_soap_fault ''Client'' ''Validation Error''
                            ''Name and price are required''), d)
               else
                 (case float env (the price) of
                    None \<Rightarrow> (Inl (create_soap_fault ''Client'' ''Validation Error''
                                   ''Invalid price format''), d)
                  | Some x \<Rightarrow>
                     let pid = lastrowid (products_seq d) (map p_id (products d));
                         d' = d\<lparr>products := products d @
                                    [\<lparr>p_id = pid, p_name = the nm, p_description = description,
                                      p_price = x, p_image_url = image_url,
                                      p_user_id = user_id payload,
                                      p_created_at = now, p_updated_at = now\<rparr>],
                                products_seq := pid\<rparr>
                     in (case find (\<lambda>p. p_id p = pid) (products d') of
                           None \<Rightarrow> (Inl TypeError, d')
                         | Some row \<Rightarrow> (Inr row, d')))))"

section \<open>A concrete environment and concrete states\<close>

text \<open>
  The examples below run the operations on concrete inputs, and so need concrete
  library functions. \<open>demo_encode\<close> writes the claims after the key, the numbers in
  unary; \<open>demo_decode\<close> accepts a token that starts with the key and has not expired,
  and reads the claims back. The digest is the reversed password. \<open>float\<close> knows three
  numerals. \<open>float_mul\<close> is the product over the reals, which is the double product on
  the numbers of the examples (10 times 3 and 20 times 5 are exact in binary64).
\<close>

definition demo_encode :: "claims \<Rightarrow> string \<Rightarrow> string" where
  "demo_encode c key =
     key @ (if user_id c < 0 then CHR ''-'' else CHR ''+'')
         # replicate (nat \<bar>user_id c\<bar>) (CHR ''u'')
         @ CHR '':'' # replicate (c_exp c) (CHR ''e'') @ CHR '':'' # c_email c"

definition demo_decode :: "string \<Rightarrow> string \<Rightarrow> timestamp \<Rightarrow> claims option" where
  "demo_decode tok key now =
     (if take (length key) tok \<noteq> key then None
      else case drop (length key) tok of
        [] \<Rightarrow> None
      | sg # r1 \<Rightarrow>
         (case dropWhile (\<lambda>x. x = CHR ''u'') r1 of
            [] \<Rightarrow> None
          | _ # r2 \<Rightarrow>
             (case dropWhile (\<lambda>x. x = CHR ''e'') r2 of
                [] \<Rightarrow> None
              | _ # mail \<Rightarrow>
                 let n = int (length (takeWhile (\<lambda>x. x = CHR ''u'') r1));
                     e = length (takeWhile (\<lambda>x. x = CHR ''e'') r2)
                 in if now < e
                    then Some \<lparr>user_id = (if sg = CHR ''-'' then - n else n),
                               c_email = mail, c_exp = e\<rparr>
                    else None)))"

definition demo_env :: env where
  "demo_env =
     \<lparr>JWT_SECRET = ''k'', sha256_hexdigest = rev,
      jwt_encode = demo_encode, jwt_decode = demo_decode,
      float = (\<lambda>s. if s = ''-5'' then Some (- 5) else if s = ''0'' then Some 0
                    else if s = ''10'' then Some 10 else None),
      float_mul = (\<lambda>x n. x * of_int n)\<rparr>"

text \<open>Two users, the second one an administrator, and a token for each that is valid at
  time 0.\<close>

definition alice :: user_row where
  "alice = \<lparr>u_id = 1, u_email = ''a@x.com'', u_password_hash = rev ''longenough1'',
             u_name = ''a'', u_role = ''user'', u_created_at = 0, u_updated_at = 0\<rparr>"

definition bob :: user_row where
  "bob = \<lparr>u_id = 2, u_email = ''b@x.com'', u_password_hash = rev ''longenough2'',
           u_name = ''b'', u_role = ''admin'', u_created_at = 0, u_updated_at = 0\<rparr>"

definition alice_token :: string where
  "alice_token = ''k+u:e:a@x.com''"

definition bob_token :: string where
  "bob_token = ''k+uu:e:b@x.com''"

definition alice_claims :: claims where
  "alice_claims = \<lparr>user_id = 1, c_email = ''a@x.com'', c_exp = 1\<rparr>"

definition bob_claims :: claims where
  "bob_claims = \<lparr>user_id = 2, c_email = ''b@x.com'', c_exp = 1\<rparr>"

definition db0 :: db where
  "db0 = \<lparr>users = [], products = [], orders = [],
           users_seq = 0, products_seq = 0, orders_seq = 0\<rparr>"

definition db_users :: db where
  "db_users = db0\<lparr>users := [alice, bob], users_seq := 2\<rparr>"

text \<open>What \<^verbatim>\<open>UpdateOrder\<close> keeps of its input: the quantity when it is at least 1, the
  status when it is one of the three names; anything else counts as not supplied.\<close>

definition accepted_quantity :: "order_update_input \<Rightarrow> int option" where
  "accepted_quantity upd =
     (if truthy_int (ou_quantity upd) \<and> 1 \<le> the (ou_quantity upd)
      then ou_quantity upd else None)"

definition accepted_status :: "order_update_input \<Rightarrow> string option" where
  "accepted_status upd =
     (if truthy_str (ou_status upd)
         \<and> the (ou_status upd) \<in> set [''pending'', ''completed'', ''cancelled'']
      then ou_status upd else None)"

text \<open>A shop: user 1 sells a widget at 10; user 2 orders three of them; user 1 then
  raises the price to 20.\<close>

definition widget :: product where
  "widget = \<lparr>p_id = 1, p_name = ''Widget'', p_description = Some [], p_price = 10,
              p_image_url = Some [], p_user_id = 1, p_created_at = 0, p_updated_at = 0\<rparr>"

definition order1 :: order_row where
  "order1 = \<lparr>o_id = 1, o_user_id = 2, o_product_id = 1, o_quantity = 3, o_total_price = 30,
              o_status = ''pending'', o_created_at = 0, o_updated_at = 0\<rparr>"

definition db_shop :: db where
  "db_shop = db_users\<lparr>products := [widget], products_seq := 1\<rparr>"

definition db_ordered :: db where
  "db_ordered = db_shop\<lparr>orders := [order1], orders_seq := 1\<rparr>"

definition db_repriced :: db where
  "db_repriced = db_ordered\<lparr>products := [widget\<lparr>p_price := 20\<rparr>]\<rparr>"

text \<open>Product inputs with a price that is not positive, for \<^verbatim>\<open>CreateProduct\<close> and, as
  parsed request parameters, for \<^verbatim>\<open>create_product\<close>; and the row that the first one
  creates in \<open>db_users\<close>.\<close>

definition negative_input :: product_input where
  "negative_input = \<lparr>pi_name = Some ''Widget'', pi_description = None,
                      pi_price = Some (- 5), pi_image_url = None\<rparr>"

definition zero_input :: product_input where
  "zero_input = \<lparr>pi_name = Some ''Widget'', pi_description = None,
                  pi_price = Some 0, pi_image_url = None\<rparr>"

definition negative_widget :: product where
  "negative_widget = \<lparr>p_id = 1, p_name = ''Widget'', p_description = Some [], p_price = - 5,
                       p_image_url = Some [], p_user_id = 1,
                       p_created_at = 0, p_updated_at = 0\<rparr>"

definition zero_params :: params where
  "zero_params = [''name'' \<mapsto> Some ''Widget'', ''price'' \<mapsto> Some ''0'']"

definition negative_params :: params where
  "negative_params = [''name'' \<mapsto> Some ''Widget'', ''price'' \<mapsto> Some ''-5'']"

text \<open>The invariant of table \<^verbatim>\<open>users\<close>: no two rows hold the same email.\<close>

definition emails_unique :: "db \<Rightarrow> bool" where
  "emails_unique d = distinct (map u_email (users d))"

text \<open>Two requests to \<^verbatim>\<open>CreateUser\<close>: one for a registered email with a password that
  is too short, one for a new user.\<close>

definition short_password_input :: user_input where
  "short_password_input = \<lparr>ui_email = Some ''a@x.com'', ui_password = Some ''short'',
                            ui_name = None\<rparr>"

text \<open>The same two requests to \<^verbatim>\<open>create_user\<close> of the reduced service: a registered email
  with a password of five characters, and with no password element.\<close>

definition short_password_params :: params where
  "short_password_params = [''email'' \<mapsto> Some ''a@x.com'', ''password'' \<mapsto> Some ''short'']"

definition no_password_params :: params where
  "no_password_params = [''email'' \<mapsto> Some ''a@x.com'']"

definition carol_input :: user_input where
  "carol_input = \<lparr>ui_email = Some ''carol@x.com'', ui_password = Some ''longenough3'',
                   ui_name = None\<rparr>"

text \<open>The row that \<^verbatim>\<open>CreateUser\<close> inserts for an email, a password and an optional
  name.\<close>

definition new_user_row :: "env \<Rightarrow> timestamp \<Rightarrow> db \<Rightarrow> string \<Rightarrow> string \<Rightarrow> string option \<Rightarrow> user_row" where
  "new_user_row env now d e pw nm =
     \<lparr>u_id = lastrowid (users_seq d) (map u_id (users d)), u_email = e,
      u_password_hash = hash_password env pw,
      u_name = (if truthy_str nm then the nm else split_at_0 e),
      u_role = ''user'', u_created_at = now, u_updated_at = now\<rparr>"

text \<open>The parameters of a \<^verbatim>\<open>CreateUserRequest\<close> as \<^verbatim>\<open>parse_soap_request\<close> delivers them,
  once with an empty \<^verbatim>\<open>name\<close> element and once without the element; and the user that
  the claim expects in both cases.\<close>

definition empty_name_params :: params where
  "empty_name_params = [''email'' \<mapsto> Some ''carol@x.com'',
                        ''password'' \<mapsto> Some ''longenough3'', ''name'' \<mapsto> None]"

definition no_name_params :: params where
  "no_name_params = [''email'' \<mapsto> Some ''carol@x.com'',
                     ''password'' \<mapsto> Some ''longenough3'']"

definition carol :: user where
  "carol = \<lparr>id' = 3, email = ''carol@x.com'', name = ''carol'', role = ''user'',
             created_at = 0, updated_at = 0\<rparr>"

text \<open>The shop after user 1 has deleted the widget: the order of user 2 stays, its
  product row is gone (the foreign key that the schema declares is not enforced: no
  connection sets \<^verbatim>\<open>PRAGMA foreign_keys\<close>, and \<^verbatim>\<open>DeleteProduct\<close> does not look at the
  orders). And an order of user 1.\<close>

definition db_orphan :: db where
  "db_orphan = db_ordered\<lparr>products := []\<rparr>"

definition dave_order :: order_row where
  "dave_order = \<lparr>o_id = 2, o_user_id = 1, o_product_id = 1, o_quantity = 1, o_total_price = 10,
                  o_status = ''pending'', o_created_at = 0, o_updated_at = 0\<rparr>"

section \<open>Library facts\<close>

lemma takeWhile_replicate_append:
  "b \<noteq> a \<Longrightarrow> takeWhile (\<lambda>x. x = a) (replicate n a @ b # xs) = replicate n a"
  by (induction n) auto

lemma dropWhile_replicate_append:
  "b \<noteq> a \<Longrightarrow> dropWhile (\<lambda>x. x = a) (replicate n a @ b # xs) = b # xs"
  by (induction n) auto

lemma demo_roundtrip:
  "now < c_exp c \<Longrightarrow> demo_decode (demo_encode c key) key now = Some c"
  by (simp add: demo_decode_def demo_encode_def takeWhile_replicate_append
      dropWhile_replicate_append)

lemma auth_alice: "authenticate_user demo_env 0 (Some alice_token) = Inr alice_claims"
  by (simp add: authenticate_user_def verify_token_def demo_env_def demo_decode_def
      alice_token_def alice_claims_def)

lemma auth_bob: "authenticate_user demo_env 0 (Some bob_token) = Inr bob_claims"
  by (simp add: authenticate_user_def verify_token_def demo_env_def demo_decode_def
      bob_token_def bob_claims_def)

lemma authenticate_user_Inr:
  "authenticate_user env now tok = Inr payload \<Longrightarrow>
     truthy_str tok \<and> verify_token env now (the tok) = Some payload"
  by (auto simp: authenticate_user_def split: if_splits option.splits)

lemma fold_max_ge: "(s::int) \<le> fold max ids s"
  by (induction ids arbitrary: s) (auto intro: order_trans [OF max.cobounded2])

lemma fold_max_mem: "i \<in> set ids \<Longrightarrow> (i::int) \<le> fold max ids s"
proof (induction ids arbitrary: s)
  case Nil
  then show ?case by simp
next
  case (Cons x xs)
  show ?case
  proof (cases "i = x")
    case True
    have "x \<le> max x s" by simp
    also have "\<dots> \<le> fold max xs (max x s)" by (rule fold_max_ge)
    finally show ?thesis using True by simp
  next
    case False
    with Cons.prems have "i \<in> set xs" by simp
    then show ?thesis using Cons.IH by simp
  qed
qed

lemma lastrowid_fresh: "i \<in> set ids \<Longrightarrow> i < lastrowid seq ids"
  using fold_max_mem [of i ids seq] by (simp add: lastrowid_def)

lemma find_Some_filter: "find P xs = Some x \<Longrightarrow> \<exists>ys. filter P xs = x # ys"
  by (induction xs) (auto split: if_splits)

lemma find_None_filter: "find P xs = None \<Longrightarrow> filter P xs = []"
  by (induction xs) (auto split: if_splits)

section \<open>Authorization of \<^verbatim>\<open>UpdateUser\<close> and \<^verbatim>\<open>DeleteUser\<close>\<close>

text \<open>
  What the guard of the two handlers decides, for an authenticated caller and an existing
  target: the call is refused exactly when the caller is not the target and the
  \<^emph>\<open>target\<close> is not an administrator. The caller's own role is never read.
\<close>

lemma DeleteUser_Unauthorized_iff:
  assumes "authenticate_user env now tok = Inr payload"
    and "find (\<lambda>r. u_id r = uid) (users d) = Some target"
  shows "fst (DeleteUser env now d uid tok) = Inl Unauthorized
           \<longleftrightarrow> user_id payload \<noteq> uid \<and> u_role target \<noteq> ''admin''"
  using assms by (simp add: DeleteUser_def get_user_by_id_def user_of_row_def)

lemma UpdateUser_Unauthorized_iff:
  assumes "authenticate_user env now tok = Inr payload"
    and "find (\<lambda>r. u_id r = uid) (users d) = Some target"
  shows "fst (UpdateUser env now d uid upd tok) = Inl Unauthorized
           \<longleftrightarrow> user_id payload \<noteq> uid \<and> u_role target \<noteq> ''admin''"
  using assms
  by (auto simp: UpdateUser_def get_user_by_id_def user_of_row_def Let_def Unauthorized_def
      InvalidPassword_def raise_soap_fault_def split: option.splits)

text \<open>
  Claim C1. For an authenticated caller and an existing target, \<^verbatim>\<open>UpdateUser\<close> and
  \<^verbatim>\<open>DeleteUser\<close> are to succeed when the caller is the target or the caller is an
  administrator, and to fail with Unauthorized otherwise. The code tests the role of the
  target instead. In the state \<open>db_users\<close>, user 1 has role \<^verbatim>\<open>user\<close> and user 2 has role
  \<^verbatim>\<open>admin\<close>: user 1 deletes and renames user 2, and user 2 is refused both on user 1.
\<close>

theorem admin_override_reads_target_role:
  "map (\<lambda>r. (u_id r, u_role r)) (users db_users) = [(1, ''user''), (2, ''admin'')]
   \<and> user_id alice_claims = 1 \<and> user_id bob_claims = 2
   \<and> DeleteUser demo_env 0 db_users 2 (Some alice_token)
       = (Inr (), db_users\<lparr>users := [alice]\<rparr>)
   \<and> UpdateUser demo_env 0 db_users 2 \<lparr>uu_name = Some ''pwned'', uu_password = None\<rparr>
         (Some alice_token)
       = (Inr \<lparr>id' = 2, email = ''b@x.com'', name = ''pwned'', role = ''admin'',
               created_at = 0, updated_at = 0\<rparr>,
          db_users\<lparr>users := [alice, bob\<lparr>u_name := ''pwned''\<rparr>]\<rparr>)
   \<and> DeleteUser demo_env 0 db_users 1 (Some bob_token) = (Inl Unauthorized, db_users)
   \<and> UpdateUser demo_env 0 db_users 1 \<lparr>uu_name = Some ''x'', uu_password = None\<rparr>
         (Some bob_token)
       = (Inl Unauthorized, db_users)"
  by (simp add: DeleteUser_def UpdateUser_def auth_alice auth_bob get_user_by_id_def
      user_of_row_def db_users_def db0_def alice_def bob_def update_users_def set_user_def
      alice_claims_def bob_claims_def)

theorem admin_override_reads_target_role_witness:
  "fst (DeleteUser demo_env 0 db_users 2 (Some alice_token)) = Inr ()
   \<and> fst (DeleteUser demo_env 0 db_users 1 (Some bob_token)) = Inl Unauthorized"
  using admin_override_reads_target_role by simp

section \<open>Orders: the join, fresh ids, and what \<^verbatim>\<open>UpdateOrder\<close> returns\<close>

lemma select_orders_join_head:
  assumes "filter cond (orders d) = r # rs"
    and "find (\<lambda>p. p_id p = o_product_id r) (products d) = Some p"
  shows "\<exists>rest. select_orders_join d cond = order_of r p # rest"
proof -
  from find_Some_filter [OF assms(2)] obtain ps
    where "filter (\<lambda>p. p_id p = o_product_id r) (products d) = p # ps" ..
  with assms(1) show ?thesis by (simp add: select_orders_join_def)
qed

lemma filter_id_fresh:
  assumes "\<forall>r \<in> set rows. o_id r \<noteq> oid"
  shows "filter (\<lambda>r. o_id r = oid) rows = []"
  using assms by (induction rows) auto

lemma lastrowid_orders_fresh:
  "filter (\<lambda>r. o_id r = lastrowid seq (map o_id rows)) rows = []"
proof (rule filter_id_fresh, rule ballI)
  fix r assume "r \<in> set rows"
  then have "o_id r \<in> set (map o_id rows)" by simp
  from lastrowid_fresh [OF this, of seq] show "o_id r \<noteq> lastrowid seq (map o_id rows)" by simp
qed

lemma CreateOrder_total_price:
  assumes auth: "authenticate_user env now tok = Inr payload"
    and prow: "find (\<lambda>p. p_id p = P) (products d) = Some prow"
    and P: "P \<noteq> 0" "sqlite_integer P" and u: "sqlite_integer (user_id payload)"
    and q: "1 \<le> q" "sqlite_integer q"
  shows "\<exists>ord d'. CreateOrder env now d \<lparr>oi_product_id = Some P, oi_quantity = Some q\<rparr> tok
                     = (Inr ord, d')
           \<and> o_total_price ord = float_mul env (p_price prow) q
           \<and> o_quantity ord = q \<and> o_product_id ord = P
           \<and> o_user_id ord = user_id payload \<and> o_status ord = ''pending''
           \<and> o_product ord = prow
           \<and> products d' = products d
           \<and> orders d' = orders d @ [order_row.truncate ord]"
proof -
  define oid where "oid = lastrowid (orders_seq d) (map o_id (orders d))"
  define new where "new = \<lparr>o_id = oid, o_user_id = user_id payload, o_product_id = P,
     o_quantity = q, o_total_price = float_mul env (p_price prow) q, o_status = ''pending'',
     o_created_at = now, o_updated_at = now\<rparr>"
  define d' where "d' = d\<lparr>orders := orders d @ [new], orders_seq := oid\<rparr>"
  have f: "filter (\<lambda>r. o_id r = oid) (orders d') = [new]"
    by (simp add: d'_def new_def oid_def lastrowid_orders_fresh)
  have "find (\<lambda>p. p_id p = o_product_id new) (products d') = Some prow"
    using prow by (simp add: d'_def new_def)
  from select_orders_join_head [OF f this] obtain rest
    where sel: "select_orders_join d' (\<lambda>r. o_id r = oid) = order_of new prow # rest" ..
  have "CreateOrder env now d \<lparr>oi_product_id = Some P, oi_quantity = Some q\<rparr> tok
          = (Inr (order_of new prow), d')"
    using auth prow P u q sel
    by (simp add: CreateOrder_def Let_def oid_def [symmetric] new_def [symmetric]
        d'_def [symmetric])
  moreover have "order_row.truncate (order_of new prow) = new"
    by (simp add: order_of_def order_row.truncate_def new_def)
  ultimately show ?thesis
    by (intro exI [of _ "order_of new prow"] exI [of _ d'])
       (simp add: order_of_def new_def d'_def)
qed

lemma CreateOrder_overflow:
  assumes auth: "authenticate_user env now tok = Inr payload"
    and prow: "find (\<lambda>p. p_id p = P) (products d) = Some prow"
    and P: "P \<noteq> 0" "sqlite_integer P"
    and q: "9223372036854775808 \<le> q"
  shows "CreateOrder env now d \<lparr>oi_product_id = Some P, oi_quantity = Some q\<rparr> tok
           = (Inl OverflowError, d)"
  using assms by (simp add: CreateOrder_def sqlite_integer_def)

lemma o_id_set_order [simp]: "o_id (set_order a b c n r) = o_id r"
  and o_user_id_set_order [simp]: "o_user_id (set_order a b c n r) = o_user_id r"
  and o_product_id_set_order [simp]: "o_product_id (set_order a b c n r) = o_product_id r"
  and o_created_at_set_order [simp]: "o_created_at (set_order a b c n r) = o_created_at r"
  by (simp_all add: set_order_def)

lemma filter_update_orders:
  "filter (\<lambda>r. o_id r = oid) (update_orders oid a b c n rows)
     = map (set_order a b c n) (filter (\<lambda>r. o_id r = oid) rows)"
  by (induction rows) (auto simp: update_orders_def)

lemma find_update_orders:
  "find (\<lambda>r. o_id r = oid) rows = Some row \<Longrightarrow>
     find (\<lambda>r. o_id r = oid) (update_orders oid a b c n rows) = Some (set_order a b c n row)"
  by (induction rows) (auto simp: update_orders_def split: if_splits)

lemma UpdateOrder_owner:
  assumes auth: "authenticate_user env now tok = Inr payload"
    and row: "find (\<lambda>r. o_id r = oid) (orders d) = Some row"
    and owner: "o_user_id row = user_id payload"
    and prow: "find (\<lambda>p. p_id p = o_product_id row) (products d) = Some prow"
    and oid: "sqlite_integer oid"
    and fits: "accepted_quantity upd = None \<or> sqlite_integer (the (accepted_quantity upd))"
  shows "UpdateOrder env now d oid upd tok =
     (if accepted_quantity upd \<noteq> None \<or> accepted_status upd \<noteq> None
      then (Inr (order_of (set_order (accepted_quantity upd)
                    (map_option (float_mul env (p_price prow)) (accepted_quantity upd))
                    (accepted_status upd) now row) prow),
            d\<lparr>orders := update_orders oid (accepted_quantity upd)
                    (map_option (float_mul env (p_price prow)) (accepted_quantity upd))
                    (accepted_status upd) now (orders d)\<rparr>)
      else (Inr (order_of row prow), d))"
proof -
  define nq where "nq = accepted_quantity upd"
  define ns where "ns = accepted_status upd"
  define nt where "nt = map_option (float_mul env (p_price prow)) nq"
  define d' where "d' = (if nq \<noteq> None \<or> ns \<noteq> None
      then d\<lparr>orders := update_orders oid nq nt ns now (orders d)\<rparr> else d)"
  define row' where "row' = (if nq \<noteq> None \<or> ns \<noteq> None then set_order nq nt ns now row else row)"
  from find_Some_filter [OF row] obtain rs
    where rs: "filter (\<lambda>r. o_id r = oid) (orders d) = row # rs" ..
  have f: "filter (\<lambda>r. o_id r = oid) (orders d') = row' # (if nq \<noteq> None \<or> ns \<noteq> None then map (set_order nq nt ns now) rs else rs)"
    using rs by (simp add: d'_def row'_def filter_update_orders)
  have p: "find (\<lambda>p. p_id p = o_product_id row') (products d') = Some prow"
    using prow by (simp add: d'_def row'_def)
  from select_orders_join_head [OF f p] obtain rest
    where sel: "select_orders_join d' (\<lambda>r. o_id r = oid) = order_of row' prow # rest" ..
  have "UpdateOrder env now d oid upd tok =
          (case select_orders_join d' (\<lambda>r. o_id r = oid) of
             [] \<Rightarrow> (Inl TypeError, d') | r # _ \<Rightarrow> (Inr r, d'))"
  proof (cases nq)
    case None
    show ?thesis
      unfolding UpdateOrder_def accepted_quantity_def [symmetric]
        accepted_status_def [symmetric] nq_def [symmetric] ns_def [symmetric]
      using auth row owner prow oid None
      by (simp add: Let_def d'_def nt_def cong: list.case_cong option.case_cong)
  next
    case (Some q)
    with fits have "sqlite_integer q"
      by (simp add: nq_def)
    then show ?thesis
      unfolding UpdateOrder_def accepted_quantity_def [symmetric]
        accepted_status_def [symmetric] nq_def [symmetric] ns_def [symmetric]
      using auth row owner prow oid Some
      by (simp add: Let_def d'_def nt_def cong: list.case_cong option.case_cong)
  qed
  with sel have "UpdateOrder env now d oid upd tok = (Inr (order_of row' prow), d')"
    by simp
  then show ?thesis
    by (simp add: d'_def row'_def nq_def ns_def nt_def)
qed

lemma UpdateOrder_overflow:
  assumes auth: "authenticate_user env now tok = Inr payload"
    and row: "find (\<lambda>r. o_id r = oid) (orders d) = Some row"
    and owner: "o_user_id row = user_id payload"
    and oid: "sqlite_integer oid"
    and q: "9223372036854775808 \<le> q"
  shows "UpdateOrder env now d oid \<lparr>ou_quantity = Some q, ou_status = st\<rparr> tok
           = (Inl OverflowError, d)"
  using assms by (simp add: UpdateOrder_def sqlite_integer_def Let_def)

lemma float_mul_demo: "float_mul demo_env x n = x * of_int n"
  by (simp add: demo_env_def)

lemmas demo_defs = db_repriced_def db_ordered_def db_shop_def db_users_def db0_def
  widget_def order1_def alice_def bob_def alice_claims_def bob_claims_def

lemma run_shop:
  "CreateOrder demo_env 0 db_shop \<lparr>oi_product_id = Some 1, oi_quantity = Some 3\<rparr> (Some bob_token)
     = (Inr (order_of order1 widget), db_ordered)"
  "UpdateProduct demo_env 0 db_ordered 1
      \<lparr>pi_name = None, pi_description = None, pi_price = Some 20, pi_image_url = None\<rparr>
      (Some alice_token)
     = (Inr (widget\<lparr>p_price := 20\<rparr>), db_repriced)"
  by (simp_all add: CreateOrder_def UpdateProduct_def auth_alice auth_bob demo_defs Let_def
      lastrowid_def select_orders_join_def order_of_def update_products_def set_product_def
      sqlite_integer_def float_mul_demo)

text \<open>
  Claim C2, as amended. For ids and a quantity that fit a 64-bit integer: \<^verbatim>\<open>CreateOrder\<close>
  on an existing product \<open>P\<close> with a quantity \<open>q \<ge> 1\<close> returns and stores an order whose
  total is the double product of the price of \<open>P\<close> and \<open>q\<close>; \<^verbatim>\<open>UpdateOrder\<close> by the owner
  with a quantity \<open>q' \<ge> 1\<close>, on an order whose product row exists, returns and stores an
  order whose total is the double product of \<open>q'\<close> and the price that the product row
  holds in the database the update runs on, whatever the price was when the order was
  created. With a quantity from \<open>2\<^sup>6\<^sup>3\<close> on, both calls end in \<^verbatim>\<open>OverflowError\<close> and leave
  the database as it was.
\<close>

theorem order_total_price_from_current_price:
  assumes "authenticate_user env now tok = Inr payload"
  shows "(find (\<lambda>p. p_id p = P) (products d) = Some prow \<and> P \<noteq> 0 \<and> sqlite_integer P
             \<and> sqlite_integer (user_id payload) \<and> 1 \<le> q \<and> q < 9223372036854775808 \<longrightarrow>
            (\<exists>ord d'. CreateOrder env now d \<lparr>oi_product_id = Some P, oi_quantity = Some q\<rparr> tok
                         = (Inr ord, d')
               \<and> o_total_price ord = float_mul env (p_price prow) q
               \<and> o_quantity ord = q \<and> o_product_id ord = P
               \<and> orders d' = orders d @ [order_row.truncate ord]))
       \<and> (find (\<lambda>r. o_id r = oid) (orders d) = Some row \<and> o_user_id row = user_id payload
             \<and> sqlite_integer oid
             \<and> find (\<lambda>p. p_id p = o_product_id row) (products d) = Some prow'
             \<and> 1 \<le> q' \<and> q' < 9223372036854775808 \<longrightarrow>
            (\<exists>ord d'. UpdateOrder env now d oid \<lparr>ou_quantity = Some q', ou_status = st\<rparr> tok
                         = (Inr ord, d')
               \<and> o_total_price ord = float_mul env (p_price prow') q'
               \<and> o_quantity ord = q'
               \<and> find (\<lambda>r. o_id r = oid) (orders d') = Some (order_row.truncate ord)))
       \<and> (find (\<lambda>p. p_id p = P) (products d) = Some prow \<and> P \<noteq> 0 \<and> sqlite_integer P
             \<and> 9223372036854775808 \<le> q \<longrightarrow>
            CreateOrder env now d \<lparr>oi_product_id = Some P, oi_quantity = Some q\<rparr> tok
              = (Inl OverflowError, d))
       \<and> (find (\<lambda>r. o_id r = oid) (orders d) = Some row \<and> o_user_id row = user_id payload
             \<and> sqlite_integer oid \<and> 9223372036854775808 \<le> q' \<longrightarrow>
            UpdateOrder env now d oid \<lparr>ou_quantity = Some q', ou_status = st\<rparr> tok
              = (Inl OverflowError, d))"
proof (intro conjI impI)
  assume a: "find (\<lambda>p. p_id p = P) (products d) = Some prow \<and> P \<noteq> 0 \<and> sqlite_integer P
             \<and> sqlite_integer (user_id payload) \<and> 1 \<le> q \<and> q < 9223372036854775808"
  then have "sqlite_integer q"
    by (simp add: sqlite_integer_def)
  with a CreateOrder_total_price [OF assms, of P d prow q]
  show "\<exists>ord d'. CreateOrder env now d \<lparr>oi_product_id = Some P, oi_quantity = Some q\<rparr> tok
                         = (Inr ord, d')
               \<and> o_total_price ord = float_mul env (p_price prow) q
               \<and> o_quantity ord = q \<and> o_product_id ord = P
               \<and> orders d' = orders d @ [order_row.truncate ord]"
    by blast
next
  assume a: "find (\<lambda>r. o_id r = oid) (orders d) = Some row \<and> o_user_id row = user_id payload
             \<and> sqlite_integer oid
             \<and> find (\<lambda>p. p_id p = o_product_id row) (products d) = Some prow'
             \<and> 1 \<le> q' \<and> q' < 9223372036854775808"
  let ?upd = "\<lparr>ou_quantity = Some q', ou_status = st\<rparr>"
  have q: "accepted_quantity ?upd = Some q'"
    using a by (auto simp: accepted_quantity_def)
  from a have row: "find (\<lambda>r. o_id r = oid) (orders d) = Some row"
    and owner: "o_user_id row = user_id payload"
    and oid: "sqlite_integer oid"
    and prow: "find (\<lambda>p. p_id p = o_product_id row) (products d) = Some prow'"
    by simp_all
  have fits: "accepted_quantity ?upd = None \<or> sqlite_integer (the (accepted_quantity ?upd))"
    using a by (simp add: q sqlite_integer_def)
  show "\<exists>ord d'. UpdateOrder env now d oid ?upd tok = (Inr ord, d')
               \<and> o_total_price ord = float_mul env (p_price prow') q'
               \<and> o_quantity ord = q'
               \<and> find (\<lambda>r. o_id r = oid) (orders d') = Some (order_row.truncate ord)"
    using UpdateOrder_owner [OF assms row owner prow oid fits] find_update_orders [OF row]
    by (simp add: q order_of_def set_order_def order_row.truncate_def)
next
  assume "find (\<lambda>p. p_id p = P) (products d) = Some prow \<and> P \<noteq> 0 \<and> sqlite_integer P
             \<and> 9223372036854775808 \<le> q"
  then show "CreateOrder env now d \<lparr>oi_product_id = Some P, oi_quantity = Some q\<rparr> tok
              = (Inl OverflowError, d)"
    using CreateOrder_overflow [OF assms, of P d prow q] by simp
next
  assume "find (\<lambda>r. o_id r = oid) (orders d) = Some row \<and> o_user_id row = user_id payload
             \<and> sqlite_integer oid \<and> 9223372036854775808 \<le> q'"
  then show "UpdateOrder env now d oid \<lparr>ou_quantity = Some q', ou_status = st\<rparr> tok
              = (Inl OverflowError, d)"
    using UpdateOrder_overflow [OF assms, of oid d row q' st] by simp
qed

text \<open>The claim as first stated (every quantity from 1 on, and the product \<open>p * q\<close>) fails
  for the quantity \<open>2\<^sup>6\<^sup>3\<close>: the owner's update ends in \<^verbatim>\<open>OverflowError\<close> and the stored
  total stays 30, where the claim has it recomputed; and \<^verbatim>\<open>CreateOrder\<close> creates no
  order.\<close>

theorem order_quantity_overflow:
  "find (\<lambda>r. o_id r = 1) (orders db_repriced) = Some order1
   \<and> o_user_id order1 = user_id bob_claims
   \<and> UpdateOrder demo_env 0 db_repriced 1
        \<lparr>ou_quantity = Some 9223372036854775808, ou_status = None\<rparr> (Some bob_token)
       = (Inl OverflowError, db_repriced)
   \<and> map o_total_price (orders db_repriced) = [30]
   \<and> map p_price (products db_repriced) = [20]
   \<and> CreateOrder demo_env 0 db_shop
        \<lparr>oi_product_id = Some 1, oi_quantity = Some 9223372036854775808\<rparr> (Some bob_token)
       = (Inl OverflowError, db_shop)"
  by (simp add: UpdateOrder_def CreateOrder_def auth_bob sqlite_integer_def demo_defs)

text \<open>The theorem at work: three widgets at 10 cost 30; after the price has gone up to 20,
  changing the quantity to five gives 100, not 50; and a quantity of \<open>2\<^sup>6\<^sup>3\<close> is refused by
  the database layer.\<close>

theorem order_total_price_from_current_price_witness:
  "authenticate_user demo_env 0 (Some bob_token) = Inr bob_claims
   \<and> snd (CreateOrder demo_env 0 db_shop \<lparr>oi_product_id = Some 1, oi_quantity = Some 3\<rparr>
            (Some bob_token)) = db_ordered
   \<and> snd (UpdateProduct demo_env 0 db_ordered 1
            \<lparr>pi_name = None, pi_description = None, pi_price = Some 20, pi_image_url = None\<rparr>
            (Some alice_token)) = db_repriced
   \<and> (\<exists>ord d'. CreateOrder demo_env 0 db_shop \<lparr>oi_product_id = Some 1, oi_quantity = Some 3\<rparr>
                  (Some bob_token) = (Inr ord, d')
         \<and> o_total_price ord = 30)
   \<and> (\<exists>ord d'. UpdateOrder demo_env 0 db_repriced 1 \<lparr>ou_quantity = Some 5, ou_status = None\<rparr>
                  (Some bob_token) = (Inr ord, d')
         \<and> o_total_price ord = 100 \<and> o_quantity ord = 5)
   \<and> CreateOrder demo_env 0 db_shop
        \<lparr>oi_product_id = Some 1, oi_quantity = Some 9223372036854775808\<rparr> (Some bob_token)
       = (Inl OverflowError, db_shop)
   \<and> UpdateOrder demo_env 0 db_repriced 1
        \<lparr>ou_quantity = Some 9223372036854775808, ou_status = None\<rparr> (Some bob_token)
       = (Inl OverflowError, db_repriced)"
proof -
  note T = order_total_price_from_current_price [OF auth_bob]
  have h1: "find (\<lambda>p. p_id p = 1) (products db_shop) = Some widget \<and> (1::int) \<noteq> 0
              \<and> sqlite_integer 1 \<and> sqlite_integer (user_id bob_claims)
              \<and> (1::int) \<le> 3 \<and> (3::int) < 9223372036854775808"
    by (simp add: demo_defs sqlite_integer_def)
  have h2: "find (\<lambda>r. o_id r = 1) (orders db_repriced) = Some order1
              \<and> o_user_id order1 = user_id bob_claims
              \<and> sqlite_integer 1
              \<and> find (\<lambda>p. p_id p = o_product_id order1) (products db_repriced)
                   = Some (widget\<lparr>p_price := 20\<rparr>)
              \<and> (1::int) \<le> 5 \<and> (5::int) < 9223372036854775808"
    by (simp add: demo_defs sqlite_integer_def)
  have h3: "find (\<lambda>p. p_id p = 1) (products db_shop) = Some widget \<and> (1::int) \<noteq> 0
              \<and> sqlite_integer 1 \<and> (9223372036854775808::int) \<le> 9223372036854775808"
    by (simp add: demo_defs sqlite_integer_def)
  have h4: "find (\<lambda>r. o_id r = 1) (orders db_repriced) = Some order1
              \<and> o_user_id order1 = user_id bob_claims
              \<and> sqlite_integer 1 \<and> (9223372036854775808::int) \<le> 9223372036854775808"
    by (simp add: demo_defs sqlite_integer_def)
  from T [THEN conjunct1, THEN mp, OF h1]
  have c1: "\<exists>ord d'. CreateOrder demo_env 0 db_shop
                \<lparr>oi_product_id = Some 1, oi_quantity = Some 3\<rparr> (Some bob_token) = (Inr ord, d')
              \<and> o_total_price ord = 30"
    by (auto simp: widget_def float_mul_demo)
  from T [THEN conjunct2, THEN conjunct1, THEN mp, OF h2, of None]
  have c2: "\<exists>ord d'. UpdateOrder demo_env 0 db_repriced 1
                \<lparr>ou_quantity = Some 5, ou_status = None\<rparr> (Some bob_token) = (Inr ord, d')
              \<and> o_total_price ord = 100 \<and> o_quantity ord = 5"
    by (auto simp: widget_def float_mul_demo)
  note c3 = T [THEN conjunct2, THEN conjunct2, THEN conjunct1, THEN mp, OF h3]
  note c4 = T [THEN conjunct2, THEN conjunct2, THEN conjunct2, THEN mp, OF h4, of None]
  show ?thesis
    using c1 c2 c3 c4 by (simp add: auth_bob run_shop)
qed

section \<open>Validation in \<^verbatim>\<open>CreateProduct\<close> and \<^verbatim>\<open>create_product\<close>\<close>

lemma find_append_fresh:
  "\<forall>x \<in> set xs. \<not> P x \<Longrightarrow> P y \<Longrightarrow> find P (xs @ [y]) = Some y"
  by (induction xs) auto

lemma find_lastrowid_products:
  "p_id new = lastrowid seq (map p_id rows) \<Longrightarrow>
     find (\<lambda>p. p_id p = lastrowid seq (map p_id rows)) (rows @ [new]) = Some new"
proof (rule find_append_fresh)
  show "\<forall>x\<in>set rows. p_id x \<noteq> lastrowid seq (map p_id rows)"
  proof
    fix x assume "x \<in> set rows"
    then have "p_id x \<in> set (map p_id rows)" by simp
    from lastrowid_fresh [OF this, of seq] show "p_id x \<noteq> lastrowid seq (map p_id rows)"
      by simp
  qed
qed

lemma CreateProduct_rejected:
  assumes "authenticate_user env now tok = Inr payload"
    and "\<not> truthy_str (pi_name inp) \<or> \<not> truthy_float (pi_price inp)"
  shows "CreateProduct env now d inp tok = (Inl (ValidationError ''Name and price are required''), d)"
  using assms by (auto simp: CreateProduct_def)

lemma CreateProduct_accepted:
  assumes "authenticate_user env now tok = Inr payload"
    and "truthy_str (pi_name inp)" and "truthy_float (pi_price inp)"
  shows "\<exists>row. CreateProduct env now d inp tok
                  = (Inr row, d\<lparr>products := products d @ [row], products_seq := p_id row\<rparr>)
           \<and> p_price row = the (pi_price inp) \<and> p_name row = the (pi_name inp)
           \<and> p_user_id row = user_id payload"
  using assms
  by (simp add: CreateProduct_def Let_def find_lastrowid_products)

lemma create_product_rejected:
  assumes "authenticate_user env now tok = Inr payload"
    and "\<not> truthy_str (dict_get pd ''name'') \<or> \<not> truthy_str (dict_get pd ''price'')"
  shows "create_product env now d pd tok
           = (Inl (create_soap_fault ''Client'' ''Validation Error'' ''Name and price are required''), d)"
  using authenticate_user_Inr [OF assms(1)] assms(2) by (auto simp: create_product_def Let_def)

lemma create_product_unparsed:
  assumes "authenticate_user env now tok = Inr payload"
    and "truthy_str (dict_get pd ''name'')" "truthy_str (dict_get pd ''price'')"
    and "float env (the (dict_get pd ''price'')) = None"
  shows "create_product env now d pd tok
           = (Inl (create_soap_fault ''Client'' ''Validation Error'' ''Invalid price format''), d)"
  using authenticate_user_Inr [OF assms(1)] assms(2-) by (auto simp: create_product_def Let_def)

lemma create_product_accepted:
  assumes "authenticate_user env now tok = Inr payload"
    and "truthy_str (dict_get pd ''name'')" "truthy_str (dict_get pd ''price'')"
    and "float env (the (dict_get pd ''price'')) = Some x"
  shows "\<exists>row. create_product env now d pd tok
                  = (Inr row, d\<lparr>products := products d @ [row], products_seq := p_id row\<rparr>)
           \<and> p_price row = x \<and> p_user_id row = user_id payload"
  using authenticate_user_Inr [OF assms(1)] assms(2-)
  by (simp add: create_product_def Let_def find_lastrowid_products)

lemma verify_alice:
  "truthy_str (Some alice_token)" "verify_token demo_env 0 alice_token = Some alice_claims"
  using authenticate_user_Inr [OF auth_alice] by simp_all

lemma float_demo:
  "float demo_env ''-5'' = Some (- 5)" "float demo_env ''0'' = Some 0"
  by (simp_all add: demo_env_def)

text \<open>
  Claim C3, as amended. For an authenticated caller, \<^verbatim>\<open>CreateProduct\<close> fails with the
  validation fault exactly when the name is absent or empty or the price is absent or
  equal to 0, and then writes nothing; with a name and any other price, negative ones
  included, it appends a row with that price. \<^verbatim>\<open>create_product\<close> fails with a validation
  fault exactly when the name or the price text is absent or empty or \<^verbatim>\<open>float\<close> cannot
  read the price text, and then writes nothing; otherwise it appends a row with the parsed
  price, whatever its sign.
\<close>

theorem CreateProduct_validation:
  assumes "authenticate_user env now tok = Inr payload"
  shows "(fst (CreateProduct env now d inp tok)
            = Inl (ValidationError ''Name and price are required'')
          \<longleftrightarrow> \<not> truthy_str (pi_name inp) \<or> pi_price inp = None \<or> pi_price inp = Some 0)
       \<and> (\<not> truthy_str (pi_name inp) \<or> pi_price inp = None \<or> pi_price inp = Some 0
            \<longrightarrow> snd (CreateProduct env now d inp tok) = d)
       \<and> (truthy_str (pi_name inp) \<and> pi_price inp = Some x \<and> x \<noteq> 0 \<longrightarrow>
            (\<exists>row. CreateProduct env now d inp tok
                     = (Inr row, d\<lparr>products := products d @ [row], products_seq := p_id row\<rparr>)
               \<and> p_price row = x))
       \<and> (fst (create_product env now d pd tok)
              = Inl (create_soap_fault ''Client'' ''Validation Error''
                       ''Name and price are required'')
            \<or> fst (create_product env now d pd tok)
              = Inl (create_soap_fault ''Client'' ''Validation Error'' ''Invalid price format'')
          \<longleftrightarrow> \<not> truthy_str (dict_get pd ''name'') \<or> \<not> truthy_str (dict_get pd ''price'')
              \<or> float env (the (dict_get pd ''price'')) = None)
       \<and> (\<not> truthy_str (dict_get pd ''name'') \<or> \<not> truthy_str (dict_get pd ''price'')
              \<or> float env (the (dict_get pd ''price'')) = None
            \<longrightarrow> snd (create_product env now d pd tok) = d)
       \<and> (truthy_str (dict_get pd ''name'') \<and> truthy_str (dict_get pd ''price'')
              \<and> float env (the (dict_get pd ''price'')) = Some y \<longrightarrow>
            (\<exists>row. create_product env now d pd tok
                     = (Inr row, d\<lparr>products := products d @ [row], products_seq := p_id row\<rparr>)
               \<and> p_price row = y))"
proof -
  have tf: "\<not> truthy_float (pi_price inp) \<longleftrightarrow> pi_price inp = None \<or> pi_price inp = Some 0"
    by (cases "pi_price inp") auto
  let ?bad = "\<not> truthy_str (pi_name inp) \<or> \<not> truthy_float (pi_price inp)"
  have 1: "?bad \<Longrightarrow> CreateProduct env now d inp tok
              = (Inl (ValidationError ''Name and price are required''), d)"
    using CreateProduct_rejected [OF assms] by blast
  have 2: "\<not> ?bad \<Longrightarrow> \<exists>row. CreateProduct env now d inp tok
                  = (Inr row, d\<lparr>products := products d @ [row], products_seq := p_id row\<rparr>)
           \<and> p_price row = the (pi_price inp)"
    using CreateProduct_accepted [OF assms, of inp d] by blast
  let ?sbad = "\<not> truthy_str (dict_get pd ''name'') \<or> \<not> truthy_str (dict_get pd ''price'')"
  let ?f = "float env (the (dict_get pd ''price''))"
  have 3: "?sbad \<Longrightarrow> create_product env now d pd tok
           = (Inl (create_soap_fault ''Client'' ''Validation Error''
                ''Name and price are required''), d)"
    using create_product_rejected [OF assms] by blast
  have 4: "\<not> ?sbad \<Longrightarrow> ?f = None \<Longrightarrow> create_product env now d pd tok
           = (Inl (create_soap_fault ''Client'' ''Validation Error'' ''Invalid price format''), d)"
    using create_product_unparsed [OF assms] by blast
  have 5: "\<not> ?sbad \<Longrightarrow> ?f = Some y \<Longrightarrow> \<exists>row. create_product env now d pd tok
                  = (Inr row, d\<lparr>products := products d @ [row], products_seq := p_id row\<rparr>)
           \<and> p_price row = y" for y
    using create_product_accepted [OF assms, of pd _ d] by blast
  have a: "fst (CreateProduct env now d inp tok)
            = Inl (ValidationError ''Name and price are required'') \<longleftrightarrow> ?bad"
    using 1 2 by (cases ?bad) auto
  have b: "?bad \<longrightarrow> snd (CreateProduct env now d inp tok) = d"
    using 1 by auto
  have c: "truthy_str (pi_name inp) \<and> pi_price inp = Some x \<and> x \<noteq> 0 \<longrightarrow>
            (\<exists>row. CreateProduct env now d inp tok
                     = (Inr row, d\<lparr>products := products d @ [row], products_seq := p_id row\<rparr>)
               \<and> p_price row = x)"
    using 2 by auto
  have e: "(fst (create_product env now d pd tok)
              = Inl (create_soap_fault ''Client'' ''Validation Error''
                       ''Name and price are required'')
            \<or> fst (create_product env now d pd tok)
              = Inl (create_soap_fault ''Client'' ''Validation Error'' ''Invalid price format''))
          \<longleftrightarrow> ?sbad \<or> ?f = None"
  proof (cases ?sbad)
    case True
    then show ?thesis using 3 by simp
  next
    case False
    show ?thesis
    proof (cases ?f)
      case None
      then show ?thesis using False 4 by simp
    next
      case (Some y)
      with 5 [OF False Some] False show ?thesis by auto
    qed
  qed
  have f: "?sbad \<or> ?f = None \<longrightarrow> snd (create_product env now d pd tok) = d"
    using 3 4 by (cases ?sbad) auto
  have g: "truthy_str (dict_get pd ''name'') \<and> truthy_str (dict_get pd ''price'')
              \<and> ?f = Some y \<longrightarrow>
            (\<exists>row. create_product env now d pd tok
                     = (Inr row, d\<lparr>products := products d @ [row], products_seq := p_id row\<rparr>)
               \<and> p_price row = y)"
    using 5 by auto
  have a': "fst (CreateProduct env now d inp tok)
            = Inl (ValidationError ''Name and price are required'')
          \<longleftrightarrow> \<not> truthy_str (pi_name inp) \<or> pi_price inp = None \<or> pi_price inp = Some 0"
    using a tf by simp
  have b': "\<not> truthy_str (pi_name inp) \<or> pi_price inp = None \<or> pi_price inp = Some 0
            \<longrightarrow> snd (CreateProduct env now d inp tok) = d"
    using b tf by simp
  have e': "(fst (create_product env now d pd tok)
              = Inl (create_soap_fault ''Client'' ''Validation Error''
                       ''Name and price are required'')
            \<or> fst (create_product env now d pd tok)
              = Inl (create_soap_fault ''Client'' ''Validation Error'' ''Invalid price format''))
          \<longleftrightarrow> \<not> truthy_str (dict_get pd ''name'') \<or> \<not> truthy_str (dict_get pd ''price'')
              \<or> ?f = None"
    using e by (simp only: disj_assoc)
  have f': "\<not> truthy_str (dict_get pd ''name'') \<or> \<not> truthy_str (dict_get pd ''price'')
              \<or> ?f = None
            \<longrightarrow> snd (create_product env now d pd tok) = d"
    using f by (simp only: disj_assoc)
  show ?thesis
    by (rule conjI [OF a' conjI [OF b' conjI [OF c conjI [OF e' conjI [OF f' g]]]]])
qed

text \<open>The claim as first stated (every price that is not strictly positive is rejected and
  no row is written) fails: \<^verbatim>\<open>CreateProduct\<close> stores a product priced -5, and
  \<^verbatim>\<open>create_product\<close> stores products priced -5 and 0.\<close>

theorem CreateProduct_accepts_nonpositive_price:
  "CreateProduct demo_env 0 db_users negative_input (Some alice_token)
     = (Inr negative_widget, db_users\<lparr>products := [negative_widget], products_seq := 1\<rparr>)
   \<and> p_price negative_widget = - 5
   \<and> create_product demo_env 0 db_users negative_params (Some alice_token)
     = (Inr negative_widget, db_users\<lparr>products := [negative_widget], products_seq := 1\<rparr>)
   \<and> create_product demo_env 0 db_users zero_params (Some alice_token)
     = (Inr (negative_widget\<lparr>p_price := 0\<rparr>),
        db_users\<lparr>products := [negative_widget\<lparr>p_price := 0\<rparr>], products_seq := 1\<rparr>)"
  using verify_alice
  by (simp add: CreateProduct_def create_product_def auth_alice Let_def lastrowid_def
      negative_input_def negative_widget_def negative_params_def zero_params_def
      dict_get_def dict_get_default_def float_demo demo_defs)

theorem CreateProduct_validation_witness:
  "authenticate_user demo_env 0 (Some alice_token) = Inr alice_claims
   \<and> fst (CreateProduct demo_env 0 db_users zero_input (Some alice_token))
       = Inl (ValidationError ''Name and price are required'')
   \<and> snd (CreateProduct demo_env 0 db_users zero_input (Some alice_token)) = db_users
   \<and> (\<exists>row. CreateProduct demo_env 0 db_users negative_input (Some alice_token)
              = (Inr row, db_users\<lparr>products := products db_users @ [row],
                                   products_seq := p_id row\<rparr>)
          \<and> p_price row = - 5)
   \<and> (\<exists>row. create_product demo_env 0 db_users zero_params (Some alice_token)
              = (Inr row, db_users\<lparr>products := products db_users @ [row],
                                   products_seq := p_id row\<rparr>)
          \<and> p_price row = 0)"
proof -
  note T = CreateProduct_validation [OF auth_alice]
  have z: "\<not> truthy_str (pi_name zero_input) \<or> pi_price zero_input = None
             \<or> pi_price zero_input = Some 0"
    by (simp add: zero_input_def)
  have n: "truthy_str (pi_name negative_input) \<and> pi_price negative_input = Some (- 5)
             \<and> (- 5 :: real) \<noteq> 0"
    by (simp add: negative_input_def)
  have s: "truthy_str (dict_get zero_params ''name'') \<and> truthy_str (dict_get zero_params ''price'')
             \<and> float demo_env (the (dict_get zero_params ''price'')) = Some 0"
    by (simp add: zero_params_def dict_get_def float_demo)
  from T [of db_users zero_input, THEN conjunct1] z
  have 1: "fst (CreateProduct demo_env 0 db_users zero_input (Some alice_token))
             = Inl (ValidationError ''Name and price are required'')"
    by simp
  from T [of db_users zero_input, THEN conjunct2, THEN conjunct1] z
  have 2: "snd (CreateProduct demo_env 0 db_users zero_input (Some alice_token)) = db_users"
    by simp
  note 3 = T [of db_users negative_input, THEN conjunct2, THEN conjunct2, THEN conjunct1,
      THEN mp, OF n]
  note 4 = T [of db_users _ _ zero_params, THEN conjunct2, THEN conjunct2, THEN conjunct2,
      THEN conjunct2, THEN conjunct2, THEN mp, OF s]
  show ?thesis
    using auth_alice 1 2 3 4 by simp
qed

section \<open>Email uniqueness\<close>

lemma snd_case_list [simp]:
  "snd (case xs of [] \<Rightarrow> (a, d) | r # rs \<Rightarrow> (f r, d)) = d"
  by (cases xs) simp_all

lemma snd_case_option [simp]:
  "snd (case x of None \<Rightarrow> (a, d) | Some r \<Rightarrow> (f r, d)) = d"
  by (cases x) simp_all

lemma users_CreateProduct: "users (snd (CreateProduct env now d inp tok)) = users d"
  by (simp add: CreateProduct_def Let_def split: sum.splits option.splits)

lemma users_UpdateProduct: "users (snd (UpdateProduct env now d pid inp tok)) = users d"
  by (simp add: UpdateProduct_def Let_def split: sum.splits option.splits)

lemma users_DeleteProduct: "users (snd (DeleteProduct env now d pid tok)) = users d"
  by (simp add: DeleteProduct_def split: sum.splits option.splits)

lemma users_CreateOrder: "users (snd (CreateOrder env now d inp tok)) = users d"
  by (simp add: CreateOrder_def Let_def split: sum.splits option.splits)

lemma users_UpdateOrder: "users (snd (UpdateOrder env now d oid inp tok)) = users d"
  by (simp add: UpdateOrder_def Let_def split: sum.splits option.splits)

lemma users_DeleteOrder: "users (snd (DeleteOrder env now d oid tok)) = users d"
  by (simp add: DeleteOrder_def split: sum.splits option.splits)

lemma users_create_product: "users (snd (create_product env now d pd tok)) = users d"
  by (simp add: create_product_def Let_def split: sum.splits option.splits)

lemma emails_update_users:
  "map u_email (update_users uid a b n rows) = map u_email rows"
  by (induction rows) (auto simp: update_users_def set_user_def)

lemma emails_UpdateUser:
  "map u_email (users (snd (UpdateUser env now d uid upd tok))) = map u_email (users d)"
  by (simp add: UpdateUser_def Let_def emails_update_users split: sum.splits option.splits)

lemma emails_DeleteUser:
  "emails_unique d \<Longrightarrow> emails_unique (snd (DeleteUser env now d uid tok))"
  by (simp add: DeleteUser_def emails_unique_def distinct_map_filter
      split: sum.splits option.splits)

lemma find_email_None: "find (\<lambda>r. u_email r = e) rows = None \<longleftrightarrow> e \<notin> set (map u_email rows)"
  by (induction rows) auto

lemma emails_CreateUser:
  "emails_unique d \<Longrightarrow> emails_unique (snd (CreateUser env now d ui))"
  by (auto simp: CreateUser_def Let_def emails_unique_def find_email_None
      split: option.splits)

lemma emails_create_user:
  "emails_unique d \<Longrightarrow> emails_unique (snd (create_user env now d ud))"
  by (auto simp: create_user_def Let_def emails_unique_def find_email_None
      split: option.splits)


lemma CreateUser_duplicate:
  assumes "e \<in> set (map u_email (users d))" "e \<noteq> []" "8 \<le> length pw"
  shows "CreateUser env now d \<lparr>ui_email = Some e, ui_password = Some pw, ui_name = nm\<rparr>
           = (Inl EmailAlreadyRegistered, d)"
  using assms find_email_None [of e "users d"]
  by (auto simp: CreateUser_def)

lemma create_user_duplicate:
  assumes "e \<in> set (map u_email (users d))" "e \<noteq> []" "8 \<le> length pw"
    and "dict_get ud ''email'' = Some e" "dict_get ud ''password'' = Some pw"
  shows "create_user env now d ud
           = (Inl (create_soap_fault ''Client'' ''Email Already Registered''
                     ''The email address is already registered''), d)"
  using assms find_email_None [of e "users d"]
  by (auto simp: create_user_def Let_def)

lemma CreateUser_no_password:
  assumes "e \<noteq> []" "\<not> truthy_str pwo"
  shows "CreateUser env now d \<lparr>ui_email = Some e, ui_password = pwo, ui_name = nm\<rparr>
           = (Inl (ValidationError ''Email and password are required''), d)"
  using assms by (simp add: CreateUser_def)

lemma CreateUser_short_password:
  assumes "e \<noteq> []" "pw \<noteq> []" "length pw < 8"
  shows "CreateUser env now d \<lparr>ui_email = Some e, ui_password = Some pw, ui_name = nm\<rparr>
           = (Inl InvalidPassword, d)"
  using assms by (simp add: CreateUser_def)

lemma create_user_no_password:
  assumes "dict_get ud ''email'' = Some e" "\<not> truthy_str (dict_get ud ''password'')"
  shows "create_user env now d ud
           = (Inl (create_soap_fault ''Client'' ''Validation Error''
                     ''Email and password are required''), d)"
  using assms by (simp add: create_user_def Let_def)

lemma create_user_short_password:
  assumes "e \<noteq> []" "pw \<noteq> []" "length pw < 8"
    and "dict_get ud ''email'' = Some e" "dict_get ud ''password'' = Some pw"
  shows "create_user env now d ud
           = (Inl (create_soap_fault ''Client'' ''Invalid Password''
                     ''Password must be at least 8 characters long''), d)"
  using assms by (simp add: create_user_def Let_def)

text \<open>
  Claim C4, as amended. In every database in which some user row holds the email \<open>e\<close>
  (compared character by character), \<^verbatim>\<open>CreateUser\<close> with the email \<open>e\<close>, non-empty, and a
  password of at least 8 characters fails with the fault EmailAlreadyRegistered and leaves
  the database as it was, so that \<^verbatim>\<open>GetAllUsers\<close> returns the same list; \<^verbatim>\<open>create_user\<close>
  of the reduced service does the same, with its own fault. In every such database the
  same call with a missing or empty password fails with the validation fault, and with a
  non-empty password of fewer than 8 characters with InvalidPassword, in both services
  and each time leaving the database as it was. Every operation that can write keeps the
  emails of table \<^verbatim>\<open>users\<close> pairwise distinct.
\<close>

theorem duplicate_email_rejected:
  "(e \<in> set (map u_email (users d)) \<and> e \<noteq> [] \<and> 8 \<le> length pw \<longrightarrow>
      CreateUser env now d \<lparr>ui_email = Some e, ui_password = Some pw, ui_name = nm\<rparr>
        = (Inl EmailAlreadyRegistered, d)
      \<and> GetAllUsers (snd (CreateUser env now d
            \<lparr>ui_email = Some e, ui_password = Some pw, ui_name = nm\<rparr>)) = GetAllUsers d
      \<and> (dict_get ud ''email'' = Some e \<and> dict_get ud ''password'' = Some pw \<longrightarrow>
           create_user env now d ud
             = (Inl (create_soap_fault ''Client'' ''Email Already Registered''
                       ''The email address is already registered''), d)))
   \<and> (e \<in> set (map u_email (users d)) \<and> e \<noteq> [] \<longrightarrow>
        (\<not> truthy_str pwo \<longrightarrow>
           CreateUser env now d \<lparr>ui_email = Some e, ui_password = pwo, ui_name = nm\<rparr>
             = (Inl (ValidationError ''Email and password are required''), d))
      \<and> (sp \<noteq> [] \<and> length sp < 8 \<longrightarrow>
           CreateUser env now d \<lparr>ui_email = Some e, ui_password = Some sp, ui_name = nm\<rparr>
             = (Inl InvalidPassword, d))
      \<and> (dict_get ud1 ''email'' = Some e \<and> \<not> truthy_str (dict_get ud1 ''password'') \<longrightarrow>
           create_user env now d ud1
             = (Inl (create_soap_fault ''Client'' ''Validation Error''
                       ''Email and password are required''), d))
      \<and> (dict_get ud2 ''email'' = Some e \<and> dict_get ud2 ''password'' = Some sp
            \<and> sp \<noteq> [] \<and> length sp < 8 \<longrightarrow>
           create_user env now d ud2
             = (Inl (create_soap_fault ''Client'' ''Invalid Password''
                       ''Password must be at least 8 characters long''), d)))
   \<and> (emails_unique d \<longrightarrow>
        emails_unique (snd (CreateUser env now d ui))
        \<and> emails_unique (snd (UpdateUser env now d uid uu tok))
        \<and> emails_unique (snd (DeleteUser env now d uid tok))
        \<and> emails_unique (snd (CreateProduct env now d pin tok))
        \<and> emails_unique (snd (UpdateProduct env now d pid pin tok))
        \<and> emails_unique (snd (DeleteProduct env now d pid tok))
        \<and> emails_unique (snd (CreateOrder env now d oin tok))
        \<and> emails_unique (snd (UpdateOrder env now d oid oup tok))
        \<and> emails_unique (snd (DeleteOrder env now d oid tok))
        \<and> emails_unique (snd (create_user env now d ud'))
        \<and> emails_unique (snd (create_product env now d pd tok)))"
proof -
  have A: "e \<in> set (map u_email (users d)) \<and> e \<noteq> [] \<and> 8 \<le> length pw \<longrightarrow>
      CreateUser env now d \<lparr>ui_email = Some e, ui_password = Some pw, ui_name = nm\<rparr>
        = (Inl EmailAlreadyRegistered, d)
      \<and> GetAllUsers (snd (CreateUser env now d
            \<lparr>ui_email = Some e, ui_password = Some pw, ui_name = nm\<rparr>)) = GetAllUsers d
      \<and> (dict_get ud ''email'' = Some e \<and> dict_get ud ''password'' = Some pw \<longrightarrow>
           create_user env now d ud
             = (Inl (create_soap_fault ''Client'' ''Email Already Registered''
                       ''The email address is already registered''), d))"
  proof (intro conjI impI)
    assume a: "e \<in> set (map u_email (users d)) \<and> e \<noteq> [] \<and> 8 \<le> length pw"
    then have dup: "e \<in> set (map u_email (users d))" and e: "e \<noteq> []"
      and pw: "8 \<le> length pw"
      by simp_all
    show c: "CreateUser env now d \<lparr>ui_email = Some e, ui_password = Some pw, ui_name = nm\<rparr>
          = (Inl EmailAlreadyRegistered, d)"
      by (rule CreateUser_duplicate [OF dup e pw])
    show "GetAllUsers (snd (CreateUser env now d
              \<lparr>ui_email = Some e, ui_password = Some pw, ui_name = nm\<rparr>)) = GetAllUsers d"
      by (simp add: c)
    assume "dict_get ud ''email'' = Some e \<and> dict_get ud ''password'' = Some pw"
    then show "create_user env now d ud
               = (Inl (create_soap_fault ''Client'' ''Email Already Registered''
                         ''The email address is already registered''), d)"
      using create_user_duplicate [OF dup e pw] by simp
  qed
  have B: "e \<in> set (map u_email (users d)) \<and> e \<noteq> [] \<longrightarrow>
        (\<not> truthy_str pwo \<longrightarrow>
           CreateUser env now d \<lparr>ui_email = Some e, ui_password = pwo, ui_name = nm\<rparr>
             = (Inl (ValidationError ''Email and password are required''), d))
      \<and> (sp \<noteq> [] \<and> length sp < 8 \<longrightarrow>
           CreateUser env now d \<lparr>ui_email = Some e, ui_password = Some sp, ui_name = nm\<rparr>
             = (Inl InvalidPassword, d))
      \<and> (dict_get ud1 ''email'' = Some e \<and> \<not> truthy_str (dict_get ud1 ''password'') \<longrightarrow>
           create_user env now d ud1
             = (Inl (create_soap_fault ''Client'' ''Validation Error''
                       ''Email and password are required''), d))
      \<and> (dict_get ud2 ''email'' = Some e \<and> dict_get ud2 ''password'' = Some sp
            \<and> sp \<noteq> [] \<and> length sp < 8 \<longrightarrow>
           create_user env now d ud2
             = (Inl (create_soap_fault ''Client'' ''Invalid Password''
                       ''Password must be at least 8 characters long''), d))"
  proof (intro conjI impI)
    assume a: "e \<in> set (map u_email (users d)) \<and> e \<noteq> []"
    then have e: "e \<noteq> []"
      by simp
    {
      assume "\<not> truthy_str pwo"
      then show "CreateUser env now d \<lparr>ui_email = Some e, ui_password = pwo, ui_name = nm\<rparr>
             = (Inl (ValidationError ''Email and password are required''), d)"
        by (rule CreateUser_no_password [OF e])
    next
      assume "sp \<noteq> [] \<and> length sp < 8"
      then show "CreateUser env now d \<lparr>ui_email = Some e, ui_password = Some sp, ui_name = nm\<rparr>
             = (Inl InvalidPassword, d)"
        using CreateUser_short_password [OF e, of sp] by simp
    next
      assume "dict_get ud1 ''email'' = Some e \<and> \<not> truthy_str (dict_get ud1 ''password'')"
      then show "create_user env now d ud1
             = (Inl (create_soap_fault ''Client'' ''Validation Error''
                       ''Email and password are required''), d)"
        using create_user_no_password [of ud1 e] by simp
    next
      assume "dict_get ud2 ''email'' = Some e \<and> dict_get ud2 ''password'' = Some sp
            \<and> sp \<noteq> [] \<and> length sp < 8"
      then show "create_user env now d ud2
             = (Inl (create_soap_fault ''Client'' ''Invalid Password''
                       ''Password must be at least 8 characters long''), d)"
        using create_user_short_password [OF e, of sp ud2] by simp
    }
  qed
  have C: "emails_unique d \<longrightarrow>
        emails_unique (snd (CreateUser env now d ui))
        \<and> emails_unique (snd (UpdateUser env now d uid uu tok))
        \<and> emails_unique (snd (DeleteUser env now d uid tok))
        \<and> emails_unique (snd (CreateProduct env now d pin tok))
        \<and> emails_unique (snd (UpdateProduct env now d pid pin tok))
        \<and> emails_unique (snd (DeleteProduct env now d pid tok))
        \<and> emails_unique (snd (CreateOrder env now d oin tok))
        \<and> emails_unique (snd (UpdateOrder env now d oid oup tok))
        \<and> emails_unique (snd (DeleteOrder env now d oid tok))
        \<and> emails_unique (snd (create_user env now d ud'))
        \<and> emails_unique (snd (create_product env now d pd tok))"
  proof (intro conjI impI)
    assume u: "emails_unique d"
    show "emails_unique (snd (CreateUser env now d ui))"
      by (rule emails_CreateUser [OF u])
    show "emails_unique (snd (UpdateUser env now d uid uu tok))"
      using u by (simp add: emails_unique_def emails_UpdateUser)
    show "emails_unique (snd (DeleteUser env now d uid tok))"
      by (rule emails_DeleteUser [OF u])
    show "emails_unique (snd (CreateProduct env now d pin tok))"
      using u by (simp add: emails_unique_def users_CreateProduct)
    show "emails_unique (snd (UpdateProduct env now d pid pin tok))"
      using u by (simp add: emails_unique_def users_UpdateProduct)
    show "emails_unique (snd (DeleteProduct env now d pid tok))"
      using u by (simp add: emails_unique_def users_DeleteProduct)
    show "emails_unique (snd (CreateOrder env now d oin tok))"
      using u by (simp add: emails_unique_def users_CreateOrder)
    show "emails_unique (snd (UpdateOrder env now d oid oup tok))"
      using u by (simp add: emails_unique_def users_UpdateOrder)
    show "emails_unique (snd (DeleteOrder env now d oid tok))"
      using u by (simp add: emails_unique_def users_DeleteOrder)
    show "emails_unique (snd (create_user env now d ud'))"
      by (rule emails_create_user [OF u])
    show "emails_unique (snd (create_product env now d pd tok))"
      using u by (simp add: emails_unique_def users_create_product)
  qed
  show ?thesis
    by (rule conjI [OF A conjI [OF B C]])
qed

text \<open>The claim as first stated (a registered email always gives EmailAlreadyRegistered)
  fails: the checks on the password come first, so for a registered email the fault is
  InvalidPassword when the password is short, and the validation fault when it is
  missing; the reduced service answers the same two requests with its own two faults.\<close>

theorem duplicate_email_short_password:
  "''a@x.com'' \<in> set (map u_email (users db_users))
   \<and> CreateUser demo_env 0 db_users short_password_input = (Inl InvalidPassword, db_users)
   \<and> InvalidPassword \<noteq> EmailAlreadyRegistered
   \<and> CreateUser demo_env 0 db_users
        \<lparr>ui_email = Some ''a@x.com'', ui_password = None, ui_name = None\<rparr>
       = (Inl (ValidationError ''Email and password are required''), db_users)
   \<and> ValidationError ''Email and password are required'' \<noteq> EmailAlreadyRegistered
   \<and> create_user demo_env 0 db_users short_password_params
       = (Inl (create_soap_fault ''Client'' ''Invalid Password''
                 ''Password must be at least 8 characters long''), db_users)
   \<and> create_user demo_env 0 db_users no_password_params
       = (Inl (create_soap_fault ''Client'' ''Validation Error''
                 ''Email and password are required''), db_users)"
  by (simp add: CreateUser_def short_password_input_def demo_defs InvalidPassword_def
      EmailAlreadyRegistered_def ValidationError_def raise_soap_fault_def
      create_user_def Let_def dict_get_def dict_get_default_def short_password_params_def
      no_password_params_def)

theorem duplicate_email_rejected_witness:
  "''a@x.com'' \<in> set (map u_email (users db_users))
   \<and> CreateUser demo_env 0 db_users
        \<lparr>ui_email = Some ''a@x.com'', ui_password = Some ''longenough9'', ui_name = None\<rparr>
       = (Inl EmailAlreadyRegistered, db_users)
   \<and> CreateUser demo_env 0 db_users
        \<lparr>ui_email = Some ''a@x.com'', ui_password = None, ui_name = None\<rparr>
       = (Inl (ValidationError ''Email and password are required''), db_users)
   \<and> CreateUser demo_env 0 db_users
        \<lparr>ui_email = Some ''a@x.com'', ui_password = Some ''short'', ui_name = None\<rparr>
       = (Inl InvalidPassword, db_users)
   \<and> create_user demo_env 0 db_users no_password_params
       = (Inl (create_soap_fault ''Client'' ''Validation Error''
                 ''Email and password are required''), db_users)
   \<and> create_user demo_env 0 db_users short_password_params
       = (Inl (create_soap_fault ''Client'' ''Invalid Password''
                 ''Password must be at least 8 characters long''), db_users)
   \<and> emails_unique db_users
   \<and> emails_unique (snd (CreateUser demo_env 0 db_users carol_input))
   \<and> map u_email (users (snd (CreateUser demo_env 0 db_users carol_input)))
       = [''a@x.com'', ''b@x.com'', ''carol@x.com'']"
proof -
  have m: "''a@x.com'' \<in> set (map u_email (users db_users))"
    by (simp add: demo_defs)
  have h: "''a@x.com'' \<in> set (map u_email (users db_users)) \<and> ''a@x.com'' \<noteq> []
             \<and> 8 \<le> length ''longenough9''"
    by (simp add: demo_defs)
  have k: "''a@x.com'' \<in> set (map u_email (users db_users)) \<and> ''a@x.com'' \<noteq> []"
    by (simp add: demo_defs)
  have u: "emails_unique db_users"
    by (simp add: emails_unique_def demo_defs)
  have np: "\<not> truthy_str None"
    by simp
  have sh: "''short'' \<noteq> [] \<and> length ''short'' < 8"
    by simp
  have p1: "dict_get no_password_params ''email'' = Some ''a@x.com''
              \<and> \<not> truthy_str (dict_get no_password_params ''password'')"
    by (simp add: no_password_params_def dict_get_def)
  have p2: "dict_get short_password_params ''email'' = Some ''a@x.com''
              \<and> dict_get short_password_params ''password'' = Some ''short''
              \<and> ''short'' \<noteq> [] \<and> length ''short'' < 8"
    by (simp add: short_password_params_def dict_get_def)
  note 1 = duplicate_email_rejected [where nm = None and env = demo_env and now = 0,
      THEN conjunct1, THEN mp, OF h, THEN conjunct1]
  note B = duplicate_email_rejected [where nm = None and env = demo_env and now = 0,
      THEN conjunct2, THEN conjunct1, THEN mp, OF k]
  note 2 = B [THEN conjunct1, THEN mp, OF np]
  note 3 = B [THEN conjunct2, THEN conjunct1, THEN mp, OF sh]
  note 4 = B [THEN conjunct2, THEN conjunct2, THEN conjunct1, THEN mp, OF p1]
  note 5 = B [THEN conjunct2, THEN conjunct2, THEN conjunct2, THEN mp, OF p2]
  note 6 = duplicate_email_rejected [where ui = carol_input and env = demo_env and now = 0,
      THEN conjunct2, THEN conjunct2, THEN mp, OF u, THEN conjunct1]
  have 7: "map u_email (users (snd (CreateUser demo_env 0 db_users carol_input)))
       = [''a@x.com'', ''b@x.com'', ''carol@x.com'']"
    by (simp add: CreateUser_def carol_input_def demo_defs Let_def)
  show ?thesis
    by (rule conjI [OF m conjI [OF 1 conjI [OF 2 conjI [OF 3 conjI [OF 4 conjI [OF 5
          conjI [OF u conjI [OF 6 7]]]]]]]])
qed

section \<open>Registration, then login\<close>

lemma find_lastrowid_users:
  "u_id new = lastrowid seq (map u_id rows) \<Longrightarrow>
     find (\<lambda>r. u_id r = lastrowid seq (map u_id rows)) (rows @ [new]) = Some new"
proof (rule find_append_fresh)
  show "\<forall>x\<in>set rows. u_id x \<noteq> lastrowid seq (map u_id rows)"
  proof
    fix x assume "x \<in> set rows"
    then have "u_id x \<in> set (map u_id rows)" by simp
    from lastrowid_fresh [OF this, of seq] show "u_id x \<noteq> lastrowid seq (map u_id rows)"
      by simp
  qed
qed

lemma CreateUser_success:
  assumes "e \<noteq> []" "e \<notin> set (map u_email (users d))" "8 \<le> length pw"
  shows "CreateUser env now d \<lparr>ui_email = Some e, ui_password = Some pw, ui_name = nm\<rparr>
           = (Inr (user_of_row (new_user_row env now d e pw nm)),
              d\<lparr>users := users d @ [new_user_row env now d e pw nm],
                users_seq := u_id (new_user_row env now d e pw nm)\<rparr>)"
  using assms find_email_None [of e "users d"]
  by (auto simp: CreateUser_def Let_def new_user_row_def get_user_by_id_def
      find_lastrowid_users)

text \<open>
  Claim C5. For an email \<open>e\<close> that no user row holds and a password of at least 8
  characters, \<^verbatim>\<open>CreateUser\<close> succeeds; \<^verbatim>\<open>Login\<close> with the same credentials, on any later
  database in which the lookup of \<open>e\<close> still finds the row as it was created, succeeds;
  and verifying the token that \<^verbatim>\<open>Login\<close> returns, at any time \<open>t\<close> before its expiry,
  gives claims that carry the id that \<^verbatim>\<open>CreateUser\<close> returned. The one fact taken from
  the token library is that \<^verbatim>\<open>jwt.decode\<close> reads back, under the same key and before the
  expiry, the claims that \<^verbatim>\<open>jwt.encode\<close> was given.
\<close>

theorem CreateUser_then_Login:
  assumes e: "e \<noteq> []" and new: "e \<notin> set (map u_email (users d))" and pw: "8 \<le> length pw"
    and contract: "\<And>c. t < c_exp c \<Longrightarrow>
       jwt_decode env (jwt_encode env c (JWT_SECRET env)) (JWT_SECRET env) t = Some c"
    and unexpired: "t < now' + 86400"
    and same: "find (\<lambda>r. u_email r = e) (users d2)
       = find (\<lambda>r. u_email r = e)
           (users (snd (CreateUser env now d
              \<lparr>ui_email = Some e, ui_password = Some pw, ui_name = nm\<rparr>)))"
  shows "\<exists>u uwt c.
           fst (CreateUser env now d \<lparr>ui_email = Some e, ui_password = Some pw, ui_name = nm\<rparr>)
             = Inr u
         \<and> Login env now' d2 \<lparr>li_email = Some e, li_password = Some pw\<rparr> = Inr uwt
         \<and> id' uwt = id' u
         \<and> verify_token env t (token uwt) = Some c
         \<and> user_id c = id' u"
proof -
  let ?row = "new_user_row env now d e pw nm"
  let ?c = "\<lparr>user_id = u_id ?row, c_email = e, c_exp = now' + 86400\<rparr>"
  note cu = CreateUser_success [OF e new pw, of env now nm]
  have "\<forall>x\<in>set (users d). u_email x \<noteq> e"
    using new by auto
  then have "find (\<lambda>r. u_email r = e) (users d @ [?row]) = Some ?row"
    by (intro find_append_fresh) (simp_all add: new_user_row_def)
  with same cu have f: "find (\<lambda>r. u_email r = e) (users d2) = Some ?row"
    by simp
  have login: "Login env now' d2 \<lparr>li_email = Some e, li_password = Some pw\<rparr>
      = Inr \<lparr>id' = u_id ?row, email = e, name = u_name ?row, role = u_role ?row,
              created_at = u_created_at ?row, updated_at = u_updated_at ?row,
              token = generate_token env now' (u_id ?row) e\<rparr>"
    using e pw f by (auto simp: Login_def verify_password_def new_user_row_def)
  have "verify_token env t (generate_token env now' (u_id ?row) e) = Some ?c"
    unfolding verify_token_def generate_token_def
    by (rule contract) (simp add: unexpired)
  with cu login show ?thesis
    by (simp add: user_of_row_def)
qed

lemma demo_contract:
  "t < c_exp c \<Longrightarrow>
     jwt_decode demo_env (jwt_encode demo_env c (JWT_SECRET demo_env)) (JWT_SECRET demo_env) t
       = Some c"
  using demo_roundtrip [of t c "JWT_SECRET demo_env"] by (simp add: demo_env_def)

theorem CreateUser_then_Login_witness:
  "''carol@x.com'' \<notin> set (map u_email (users db_users))
   \<and> (\<exists>u uwt c.
         fst (CreateUser demo_env 0 db_users carol_input) = Inr u
       \<and> Login demo_env 5 ((snd (CreateUser demo_env 0 db_users carol_input))
                              \<lparr>products := [widget]\<rparr>)
            \<lparr>li_email = Some ''carol@x.com'', li_password = Some ''longenough3''\<rparr> = Inr uwt
       \<and> id' u = 3 \<and> id' uwt = 3
       \<and> verify_token demo_env 10 (token uwt) = Some c
       \<and> user_id c = 3)"
proof -
  have e: "''carol@x.com'' \<noteq> []" by simp
  have new: "''carol@x.com'' \<notin> set (map u_email (users db_users))"
    by (simp add: demo_defs)
  have pw: "8 \<le> length ''longenough3''" by simp
  have unexpired: "(10::nat) < 5 + 86400" by simp
  let ?d' = "snd (CreateUser demo_env 0 db_users
      \<lparr>ui_email = Some ''carol@x.com'', ui_password = Some ''longenough3'', ui_name = None\<rparr>)"
  have same: "find (\<lambda>r. u_email r = ''carol@x.com'') (users (?d'\<lparr>products := [widget]\<rparr>))
      = find (\<lambda>r. u_email r = ''carol@x.com'') (users ?d')"
    by simp
  from CreateUser_then_Login [of "''carol@x.com''" db_users "''longenough3''" 10 demo_env 5
      "?d'\<lparr>products := [widget]\<rparr>" 0 None, OF e new pw demo_contract unexpired same]
  obtain u uwt c where r:
    "fst (CreateUser demo_env 0 db_users
       \<lparr>ui_email = Some ''carol@x.com'', ui_password = Some ''longenough3'', ui_name = None\<rparr>)
       = Inr u"
    "Login demo_env 5 (?d'\<lparr>products := [widget]\<rparr>)
       \<lparr>li_email = Some ''carol@x.com'', li_password = Some ''longenough3''\<rparr> = Inr uwt"
    "id' uwt = id' u" "verify_token demo_env 10 (token uwt) = Some c" "user_id c = id' u"
    by blast
  have "id' u = 3"
    using r(1) by (auto simp: CreateUser_def demo_defs Let_def lastrowid_def
        get_user_by_id_def user_of_row_def)
  with r new show ?thesis
    by (auto simp: carol_input_def)
qed

section \<open>The default name of a new user\<close>

text \<open>
  \<^verbatim>\<open>CreateUser\<close> takes the text of the email before its first \<^verbatim>\<open>@\<close> as the name when
  the name is absent or empty (\<^verbatim>\<open>user_input.name or ...\<close>). \<^verbatim>\<open>create_user\<close> does so only
  when the request has no \<^verbatim>\<open>name\<close> element (\<^verbatim>\<open>user_data.get('name', ...)\<close>): for an empty
  element the dictionary holds \<^verbatim>\<open>None\<close>, which goes to the \<^verbatim>\<open>NOT NULL\<close> column.
\<close>

lemma split_at_0_append:
  "CHR ''@'' \<notin> set a \<Longrightarrow> split_at_0 (a @ CHR ''@'' # b) = a"
  by (simp add: split_at_0_def takeWhile_append)

lemma CreateUser_default_name:
  assumes "e \<noteq> []" "e \<notin> set (map u_email (users d))" "8 \<le> length pw"
    and "nm = None \<or> nm = Some []"
  shows "\<exists>u d'. CreateUser env now d \<lparr>ui_email = Some e, ui_password = Some pw, ui_name = nm\<rparr>
                   = (Inr u, d')
           \<and> name u = split_at_0 e \<and> email u = e"
  using CreateUser_success [OF assms(1-3), of env now nm] assms(4)
  by (auto simp: user_of_row_def new_user_row_def)

lemma create_user_absent_name:
  assumes "e \<noteq> []" "e \<notin> set (map u_email (users d))" "8 \<le> length pw"
    and "ud ''email'' = Some (Some e)" "ud ''password'' = Some (Some pw)" "ud ''name'' = None"
  shows "\<exists>u d'. create_user env now d ud = (Inr u, d') \<and> name u = split_at_0 e \<and> email u = e"
  using assms find_email_None [of e "users d"]
  by (auto simp: create_user_def Let_def dict_get_def dict_get_default_def get_user_by_id_def
      find_lastrowid_users user_of_row_def)

lemma create_user_empty_name:
  assumes "e \<noteq> []" "e \<notin> set (map u_email (users d))" "8 \<le> length pw"
    and "ud ''email'' = Some (Some e)" "ud ''password'' = Some (Some pw)"
    and "ud ''name'' = Some None"
  shows "create_user env now d ud = (Inl IntegrityError, d)"
  using assms find_email_None [of e "users d"]
  by (auto simp: create_user_def Let_def dict_get_def dict_get_default_def)

text \<open>
  Claim C10. With an unregistered email, a password of at least 8 characters and the name
  absent or empty, creating a user is to succeed, with the text before the first \<^verbatim>\<open>@\<close>
  of the email as the name. \<^verbatim>\<open>CreateUser\<close> does that, and so does \<^verbatim>\<open>create_user\<close> for an
  absent name; for an empty \<^verbatim>\<open>name\<close> element \<^verbatim>\<open>create_user\<close> fails with the integrity
  error of the database and creates nothing.
\<close>

theorem create_user_empty_name_fails:
  "create_user demo_env 0 db_users empty_name_params = (Inl IntegrityError, db_users)
   \<and> create_user demo_env 0 db_users no_name_params
       = (Inr carol, db_users\<lparr>users := users db_users @ [new_user_row demo_env 0 db_users
                                    ''carol@x.com'' ''longenough3'' None],
                              users_seq := 3\<rparr>)
   \<and> fst (CreateUser demo_env 0 db_users
        \<lparr>ui_email = Some ''carol@x.com'', ui_password = Some ''longenough3'',
         ui_name = Some []\<rparr>) = Inr carol
   \<and> fst (CreateUser demo_env 0 db_users
        \<lparr>ui_email = Some ''carol@x.com'', ui_password = Some ''longenough3'',
         ui_name = None\<rparr>) = Inr carol"
  by (simp add: create_user_def CreateUser_def empty_name_params_def no_name_params_def
      carol_def dict_get_def dict_get_default_def Let_def lastrowid_def get_user_by_id_def
      user_of_row_def new_user_row_def split_at_0_def hash_password_def demo_defs)

theorem create_user_empty_name_fails_witness:
  "fst (create_user demo_env 0 db_users empty_name_params) = Inl IntegrityError
   \<and> fst (create_user demo_env 0 db_users no_name_params) = Inr carol"
  using create_user_empty_name_fails by simp

section \<open>What \<^verbatim>\<open>UpdateProduct\<close> leaves alone\<close>

lemma set_product_frame [simp]:
  "p_id (set_product a b c e n r) = p_id r"
  "p_user_id (set_product a b c e n r) = p_user_id r"
  "p_created_at (set_product a b c e n r) = p_created_at r"
  by (simp_all add: set_product_def)

lemma find_update_products:
  "find (\<lambda>r. p_id r = pid) rows = Some p \<Longrightarrow>
     find (\<lambda>r. p_id r = pid) (update_products pid a b c e n rows)
       = Some (set_product a b c e n p)"
  by (induction rows) (auto simp: update_products_def split: if_splits)

lemma update_products_frame:
  "map p_id (update_products pid a b c e n rows) = map p_id rows"
  "map p_user_id (update_products pid a b c e n rows) = map p_user_id rows"
  "map p_created_at (update_products pid a b c e n rows) = map p_created_at rows"
  by (induction rows) (auto simp: update_products_def)

lemma product_eq_except:
  "p_id p' = p_id p \<Longrightarrow> p_user_id p' = p_user_id p \<Longrightarrow> p_created_at p' = p_created_at p \<Longrightarrow>
     p' = p\<lparr>p_name := p_name p', p_description := p_description p', p_price := p_price p',
            p_image_url := p_image_url p', p_updated_at := p_updated_at p'\<rparr>"
  for p p' :: product
  by (cases p, cases p') simp

lemma UpdateProduct_success_owner:
  assumes "UpdateProduct env now d pid upd tok = (Inr p', d')"
  shows "\<exists>payload p. authenticate_user env now tok = Inr payload
           \<and> find (\<lambda>r. p_id r = pid) (products d) = Some p
           \<and> p_user_id p = user_id payload"
  using assms
  by (auto simp: UpdateProduct_def split: sum.splits option.splits if_splits)

text \<open>
  Claim C8. \<^verbatim>\<open>UpdateProduct\<close> succeeds exactly on an existing product and for its owner
  (the lemma above gives the direction from success). Such a call returns and stores a
  product with the id, the owner and the creation time it had before: it differs from the
  old row in the name, the description, the price, the image URL and the update time at
  most. No row of table \<^verbatim>\<open>products\<close> changes its id, owner or creation time, and the
  other tables stay as they are.
\<close>

theorem UpdateProduct_frame:
  assumes auth: "authenticate_user env now tok = Inr payload"
    and row: "find (\<lambda>r. p_id r = pid) (products d) = Some p"
    and owner: "p_user_id p = user_id payload"
  shows "\<exists>p' d'. UpdateProduct env now d pid upd tok = (Inr p', d')
           \<and> find (\<lambda>r. p_id r = pid) (products d') = Some p'
           \<and> p_id p' = p_id p \<and> p_user_id p' = p_user_id p \<and> p_created_at p' = p_created_at p
           \<and> p' = p\<lparr>p_name := p_name p', p_description := p_description p',
                     p_price := p_price p', p_image_url := p_image_url p',
                     p_updated_at := p_updated_at p'\<rparr>
           \<and> map p_id (products d') = map p_id (products d)
           \<and> map p_user_id (products d') = map p_user_id (products d)
           \<and> map p_created_at (products d') = map p_created_at (products d)
           \<and> users d' = users d \<and> orders d' = orders d"
proof -
  define a where "a = (if truthy_str (pi_name upd) then pi_name upd else None)"
  define c where "c = (if truthy_float (pi_price upd) then pi_price upd else None)"
  define ch where "ch \<longleftrightarrow> a \<noteq> None \<or> pi_description upd \<noteq> None \<or> c \<noteq> None
                             \<or> pi_image_url upd \<noteq> None"
  define d' where "d' = (if ch
      then d\<lparr>products := update_products pid a (pi_description upd) c (pi_image_url upd) now
                            (products d)\<rparr> else d)"
  define p' where "p' = (if ch
      then set_product a (pi_description upd) c (pi_image_url upd) now p else p)"
  have f: "find (\<lambda>r. p_id r = pid) (products d') = Some p'"
    using row by (simp add: d'_def p'_def find_update_products)
  have "UpdateProduct env now d pid upd tok
          = (case find (\<lambda>r. p_id r = pid) (products d') of
               None \<Rightarrow> (Inl TypeError, d') | Some r \<Rightarrow> (Inr r, d'))"
    using auth row owner
    unfolding UpdateProduct_def d'_def ch_def a_def c_def
    by (simp add: Let_def cong: option.case_cong)
  with f have u: "UpdateProduct env now d pid upd tok = (Inr p', d')"
    by simp
  have fr: "p_id p' = p_id p" "p_user_id p' = p_user_id p" "p_created_at p' = p_created_at p"
    by (simp_all add: p'_def)
  have "map p_id (products d') = map p_id (products d)"
    "map p_user_id (products d') = map p_user_id (products d)"
    "map p_created_at (products d') = map p_created_at (products d)"
    "users d' = users d" "orders d' = orders d"
    by (simp_all add: d'_def update_products_frame)
  with u f fr product_eq_except [OF fr] show ?thesis
    by blast
qed

theorem UpdateProduct_frame_witness:
  "authenticate_user demo_env 0 (Some alice_token) = Inr alice_claims
   \<and> find (\<lambda>r. p_id r = 1) (products db_ordered) = Some widget
   \<and> p_user_id widget = user_id alice_claims
   \<and> (\<exists>p' d'. UpdateProduct demo_env 0 db_ordered 1
                  \<lparr>pi_name = None, pi_description = None, pi_price = Some 20,
                   pi_image_url = None\<rparr> (Some alice_token) = (Inr p', d')
          \<and> p_id p' = 1 \<and> p_user_id p' = 1 \<and> p_created_at p' = 0 \<and> p_price p' = 20
          \<and> map p_user_id (products d') = [1])"
proof -
  have row: "find (\<lambda>r. p_id r = 1) (products db_ordered) = Some widget"
    by (simp add: demo_defs)
  have owner: "p_user_id widget = user_id alice_claims"
    by (simp add: demo_defs)
  from UpdateProduct_frame [OF auth_alice row owner,
      of "\<lparr>pi_name = None, pi_description = None, pi_price = Some 20, pi_image_url = None\<rparr>"]
  obtain p' d' where r: "UpdateProduct demo_env 0 db_ordered 1
        \<lparr>pi_name = None, pi_description = None, pi_price = Some 20, pi_image_url = None\<rparr>
        (Some alice_token) = (Inr p', d')"
    "p_id p' = p_id widget" "p_user_id p' = p_user_id widget"
    "p_created_at p' = p_created_at widget"
    "map p_user_id (products d') = map p_user_id (products db_ordered)"
    by blast
  from r(1) have "p_price p' = 20"
    by (auto simp: run_shop)
  with r auth_alice row owner show ?thesis
    by (simp add: demo_defs)
qed

section \<open>Reading orders\<close>




lemma truncate_order_of [simp]: "order_row.truncate (order_of r p) = r"
  by (simp add: order_row.truncate_def order_of_def)

lemma order_of_fields [simp]:
  "o_user_id (order_of r p) = o_user_id r" "o_product_id (order_of r p) = o_product_id r"
  "o_product (order_of r p) = p" "o_id (order_of r p) = o_id r"
  by (simp_all add: order_of_def)

lemma filter_key_distinct:
  "distinct (map f xs) \<Longrightarrow>
     filter (\<lambda>x. f x = k) xs = (case find (\<lambda>x. f x = k) xs of None \<Rightarrow> [] | Some x \<Rightarrow> [x])"
proof (induction xs)
  case Nil
  then show ?case by simp
next
  case (Cons x xs)
  show ?case
  proof (cases "f x = k")
    case True
    with Cons.prems have "\<forall>y \<in> set xs. f y \<noteq> k" by (auto simp: image_iff)
    then have "filter (\<lambda>x. f x = k) xs = []" by (simp add: filter_empty_conv)
    with True show ?thesis by simp
  next
    case False
    with Cons show ?thesis by simp
  qed
qed

lemma find_key_mem: "find (\<lambda>x. f x = k) xs = None \<longleftrightarrow> k \<notin> set (map f xs)"
  by (induction xs) auto

lemma join_rows:
  assumes "distinct (map p_id ps)"
  shows "map order_row.truncate
           (concat (map (\<lambda>r. map (order_of r) (filter (\<lambda>p. p_id p = o_product_id r) ps)) rs))
         = filter (\<lambda>r. o_product_id r \<in> set (map p_id ps)) rs"
proof (induction rs)
  case Nil
  then show ?case by simp
next
  case (Cons r rs)
  show ?case
  proof (cases "find (\<lambda>p. p_id p = o_product_id r) ps")
    case None
    with Cons find_key_mem [of p_id "o_product_id r" ps] show ?thesis
      by (simp add: filter_key_distinct [OF assms])
  next
    case (Some p)
    then have "o_product_id r \<in> set (map p_id ps)"
      using find_key_mem [of p_id "o_product_id r" ps] by simp
    with Cons Some show ?thesis
      by (simp add: filter_key_distinct [OF assms])
  qed
qed

lemma select_orders_join_rows:
  "distinct (map p_id (products d)) \<Longrightarrow>
     map order_row.truncate (select_orders_join d cond)
       = filter (\<lambda>r. cond r \<and> o_product_id r \<in> set (map p_id (products d))) (orders d)"
  by (simp add: select_orders_join_def join_rows conj_commute)


lemma select_orders_join_cong:
  assumes "filter cond (orders d2) = filter cond (orders d)"
    and "\<forall>r \<in> set (filter cond (orders d)).
           filter (\<lambda>p. p_id p = o_product_id r) (products d2)
             = filter (\<lambda>p. p_id p = o_product_id r) (products d)"
  shows "select_orders_join d2 cond = select_orders_join d cond"
proof -
  have "map (\<lambda>r. map (order_of r) (filter (\<lambda>p. p_id p = o_product_id r) (products d2)))
          (filter cond (orders d))
      = map (\<lambda>r. map (order_of r) (filter (\<lambda>p. p_id p = o_product_id r) (products d)))
          (filter cond (orders d))"
    by (rule map_cong [OF refl]) (simp add: assms(2))
  then show ?thesis
    unfolding select_orders_join_def assms(1) by (rule arg_cong)
qed

lemma select_orders_join_sound:
  "x \<in> set (select_orders_join d cond) \<Longrightarrow>
     cond (order_row.truncate x) \<and> o_product x \<in> set (products d)
       \<and> p_id (o_product x) = o_product_id x"
  by (auto simp: select_orders_join_def)

text \<open>
  What \<^verbatim>\<open>GetAllOrders\<close> does in every database. For an authenticated caller it returns
  only orders of the caller, each with a product row of the database that has the order's
  product id; product ids being unique, the orders returned are the caller's orders whose
  product row exists, in table order. On two databases that have the same orders of the
  caller and, for each of these, the same product rows under its product id, the result
  is the same, whatever else the databases hold.
\<close>

theorem GetAllOrders_own_orders:
  assumes auth: "authenticate_user env now tok = Inr payload"
  shows "\<exists>L. GetAllOrders env now d tok = Inr L
           \<and> (\<forall>x \<in> set L. o_user_id x = user_id payload
                  \<and> o_product x \<in> set (products d) \<and> p_id (o_product x) = o_product_id x)
           \<and> (distinct (map p_id (products d)) \<longrightarrow>
                 map order_row.truncate L
                   = filter (\<lambda>r. o_user_id r = user_id payload
                                  \<and> o_product_id r \<in> set (map p_id (products d))) (orders d))
           \<and> (filter (\<lambda>r. o_user_id r = user_id payload) (orders d2)
                  = filter (\<lambda>r. o_user_id r = user_id payload) (orders d)
                \<and> (\<forall>r \<in> set (filter (\<lambda>r. o_user_id r = user_id payload) (orders d)).
                      filter (\<lambda>p. p_id p = o_product_id r) (products d2)
                        = filter (\<lambda>p. p_id p = o_product_id r) (products d))
               \<longrightarrow> GetAllOrders env now d2 tok = GetAllOrders env now d tok)"
proof -
  let ?own = "\<lambda>r. o_user_id r = user_id payload"
  let ?L = "select_orders_join d ?own"
  have g: "GetAllOrders env now d tok = Inr ?L" "GetAllOrders env now d2 tok
      = Inr (select_orders_join d2 ?own)"
    using auth by (simp_all add: GetAllOrders_def)
  have s: "\<forall>x \<in> set ?L. o_user_id x = user_id payload
                  \<and> o_product x \<in> set (products d) \<and> p_id (o_product x) = o_product_id x"
    using select_orders_join_sound [of _ d ?own]
    by (auto simp: order_row.truncate_def)
  have r: "distinct (map p_id (products d)) \<longrightarrow>
                 map order_row.truncate ?L
                   = filter (\<lambda>r. o_user_id r = user_id payload
                                  \<and> o_product_id r \<in> set (map p_id (products d))) (orders d)"
    using select_orders_join_rows [of d ?own] by simp
  have h: "filter ?own (orders d2) = filter ?own (orders d)
                \<and> (\<forall>r \<in> set (filter ?own (orders d)).
                      filter (\<lambda>p. p_id p = o_product_id r) (products d2)
                        = filter (\<lambda>p. p_id p = o_product_id r) (products d))
               \<longrightarrow> GetAllOrders env now d2 tok = GetAllOrders env now d tok"
    using select_orders_join_cong [of ?own d2 d] g by simp
  from g(1) s r h show ?thesis by blast
qed

theorem GetAllOrders_own_orders_witness:
  "authenticate_user demo_env 0 (Some bob_token) = Inr bob_claims
   \<and> distinct (map p_id (products db_ordered))
   \<and> (\<exists>L. GetAllOrders demo_env 0 db_ordered (Some bob_token) = Inr L
          \<and> map order_row.truncate L = [order1])
   \<and> GetAllOrders demo_env 0 (db_ordered\<lparr>orders := [dave_order, order1], users := []\<rparr>)
        (Some bob_token)
       = GetAllOrders demo_env 0 db_ordered (Some bob_token)"
proof -
  note T = GetAllOrders_own_orders [OF auth_bob]
  have dist: "distinct (map p_id (products db_ordered))"
    by (simp add: demo_defs)
  let ?d2 = "db_ordered\<lparr>orders := [dave_order, order1], users := []\<rparr>"
  have same: "filter (\<lambda>r. o_user_id r = user_id bob_claims) (orders ?d2)
                  = filter (\<lambda>r. o_user_id r = user_id bob_claims) (orders db_ordered)
                \<and> (\<forall>r \<in> set (filter (\<lambda>r. o_user_id r = user_id bob_claims) (orders db_ordered)).
                      filter (\<lambda>p. p_id p = o_product_id r) (products ?d2)
                        = filter (\<lambda>p. p_id p = o_product_id r) (products db_ordered))"
    by (simp add: demo_defs dave_order_def)
  from T [of db_ordered ?d2] obtain L where
    L: "GetAllOrders demo_env 0 db_ordered (Some bob_token) = Inr L"
    and rows: "distinct (map p_id (products db_ordered)) \<longrightarrow>
                 map order_row.truncate L
                   = filter (\<lambda>r. o_user_id r = user_id bob_claims
                       \<and> o_product_id r \<in> set (map p_id (products db_ordered)))
                      (orders db_ordered)"
    and ni: "filter (\<lambda>r. o_user_id r = user_id bob_claims) (orders ?d2)
                  = filter (\<lambda>r. o_user_id r = user_id bob_claims) (orders db_ordered)
                \<and> (\<forall>r \<in> set (filter (\<lambda>r. o_user_id r = user_id bob_claims) (orders db_ordered)).
                      filter (\<lambda>p. p_id p = o_product_id r) (products ?d2)
                        = filter (\<lambda>p. p_id p = o_product_id r) (products db_ordered))
               \<longrightarrow> GetAllOrders demo_env 0 ?d2 (Some bob_token)
                     = GetAllOrders demo_env 0 db_ordered (Some bob_token)"
    by blast
  from rows dist have tr: "map order_row.truncate L = [order1]"
    by (simp add: demo_defs)
  have c3: "\<exists>L. GetAllOrders demo_env 0 db_ordered (Some bob_token) = Inr L
          \<and> map order_row.truncate L = [order1]"
    by (rule exI [of _ L], rule conjI [OF L tr])
  note c4 = ni [THEN mp, OF same]
  show ?thesis
    by (rule conjI [OF auth_bob conjI [OF dist conjI [OF c3 c4]]])
qed

text \<open>
  Claim C7. For an authenticated caller \<^verbatim>\<open>GetAllOrders\<close> is to return exactly the orders
  whose user id is the caller's. It never returns another user's order, and other users'
  orders never change its result (\<open>GetAllOrders_own_orders\<close>); but it reads the orders
  through the inner join with \<^verbatim>\<open>products\<close>, and \<^verbatim>\<open>DeleteProduct\<close> removes a product row
  and leaves the orders of that product in the table (the foreign key of \<^verbatim>\<open>orders\<close> is
  declared and never enforced, although \<^verbatim>\<open>CreateOrder\<close> refuses a product that does not
  exist). User 2 orders the widget and \<^verbatim>\<open>GetAllOrders\<close> returns the order; user 1 deletes
  the widget; the order of user 2 is still in the table, and \<^verbatim>\<open>GetAllOrders\<close> now returns
  the empty list to user 2.
\<close>

theorem GetAllOrders_omits_orphaned_order:
  "CreateOrder demo_env 0 db_shop \<lparr>oi_product_id = Some 1, oi_quantity = Some 3\<rparr>
       (Some bob_token) = (Inr (order_of order1 widget), db_ordered)
   \<and> GetAllOrders demo_env 0 db_ordered (Some bob_token) = Inr [order_of order1 widget]
   \<and> DeleteProduct demo_env 0 db_ordered 1 (Some alice_token) = (Inr (), db_orphan)
   \<and> user_id bob_claims = 2
   \<and> filter (\<lambda>r. o_user_id r = 2) (orders db_orphan) = [order1]
   \<and> GetAllOrders demo_env 0 db_orphan (Some bob_token) = Inr []"
proof -
  have a: "DeleteProduct demo_env 0 db_ordered 1 (Some alice_token) = (Inr (), db_orphan)"
    by (simp add: DeleteProduct_def auth_alice db_orphan_def demo_defs)
  have b: "user_id bob_claims = 2"
    by (simp add: bob_claims_def)
  have c: "filter (\<lambda>r. o_user_id r = 2) (orders db_orphan) = [order1]"
    by (simp add: db_orphan_def demo_defs)
  have d: "GetAllOrders demo_env 0 db_orphan (Some bob_token) = Inr []"
    by (simp add: GetAllOrders_def auth_bob select_orders_join_def db_orphan_def)
  have e: "GetAllOrders demo_env 0 db_ordered (Some bob_token) = Inr [order_of order1 widget]"
    by (simp add: GetAllOrders_def auth_bob select_orders_join_def demo_defs)
  show ?thesis
    using run_shop(1) a b c d e by simp
qed

theorem GetAllOrders_omits_orphaned_order_witness:
  "map o_user_id (orders db_orphan) = [user_id bob_claims]
   \<and> GetAllOrders demo_env 0 db_orphan (Some bob_token) = Inr []
   \<and> GetAllOrders demo_env 0 db_ordered (Some bob_token) = Inr [order_of order1 widget]"
proof -
  have "map o_user_id (orders db_orphan) = [user_id bob_claims]"
    by (simp add: db_orphan_def demo_defs)
  with GetAllOrders_omits_orphaned_order show ?thesis
    by simp
qed

section \<open>Invalid fields in \<^verbatim>\<open>UpdateOrder\<close>\<close>

text \<open>
  \<^verbatim>\<open>UpdateOrder\<close> reads its input only through \<open>accepted_quantity\<close> and
  \<open>accepted_status\<close>: a status that is none of the three names, and a quantity below 1,
  leave the call exactly what it is without them. When the product row of the order
  exists, the owner's call succeeds, the dropped field keeps its stored value, and the
  other field, if valid, is set.
\<close>

lemma run_orphan:
  "DeleteProduct demo_env 0 db_ordered 1 (Some alice_token) = (Inr (), db_orphan)"
  by (simp add: DeleteProduct_def auth_alice db_orphan_def demo_defs)

lemma UpdateOrder_accepted:
  assumes "accepted_quantity u = accepted_quantity u'"
    and "accepted_status u = accepted_status u'"
  shows "UpdateOrder env now d oid u tok = UpdateOrder env now d oid u' tok"
proof -
  have q: "(if truthy_int (ou_quantity u) \<and> 1 \<le> the (ou_quantity u)
            then ou_quantity u else None)
         = (if truthy_int (ou_quantity u') \<and> 1 \<le> the (ou_quantity u')
            then ou_quantity u' else None)"
    using assms(1) by (simp only: accepted_quantity_def)
  have s: "(if truthy_str (ou_status u)
               \<and> the (ou_status u) \<in> set [''pending'', ''completed'', ''cancelled'']
            then ou_status u else None)
         = (if truthy_str (ou_status u')
               \<and> the (ou_status u') \<in> set [''pending'', ''completed'', ''cancelled'']
            then ou_status u' else None)"
    using assms(2) by (simp only: accepted_status_def)
  show ?thesis
    unfolding UpdateOrder_def by (simp only: q s)
qed

lemma accepted_invalid:
  "s \<notin> set [''pending'', ''completed'', ''cancelled''] \<Longrightarrow>
     accepted_status \<lparr>ou_quantity = q, ou_status = Some s\<rparr> = None"
  "n < 1 \<Longrightarrow> accepted_quantity \<lparr>ou_quantity = Some n, ou_status = st\<rparr> = None"
  by (simp_all add: accepted_status_def accepted_quantity_def)

lemma accepted_valid:
  "s \<in> set [''pending'', ''completed'', ''cancelled''] \<Longrightarrow>
     accepted_status \<lparr>ou_quantity = q, ou_status = Some s\<rparr> = Some s"
  "1 \<le> n \<Longrightarrow> accepted_quantity \<lparr>ou_quantity = Some n, ou_status = st\<rparr> = Some n"
  by (auto simp: accepted_status_def accepted_quantity_def)

lemma UpdateOrder_drops_invalid_status:
  assumes "s \<notin> set [''pending'', ''completed'', ''cancelled'']"
  shows "UpdateOrder env now d oid \<lparr>ou_quantity = q, ou_status = Some s\<rparr> tok
           = UpdateOrder env now d oid \<lparr>ou_quantity = q, ou_status = None\<rparr> tok"
  using assms
  by (intro UpdateOrder_accepted) (simp_all add: accepted_status_def accepted_quantity_def)

lemma UpdateOrder_drops_invalid_quantity:
  assumes "n < 1"
  shows "UpdateOrder env now d oid \<lparr>ou_quantity = Some n, ou_status = st\<rparr> tok
           = UpdateOrder env now d oid \<lparr>ou_quantity = None, ou_status = st\<rparr> tok"
  using assms
  by (intro UpdateOrder_accepted) (auto simp: accepted_status_def accepted_quantity_def)

lemma UpdateOrder_invalid_status_with_product:
  assumes auth: "authenticate_user env now tok = Inr payload"
    and row: "find (\<lambda>r. o_id r = oid) (orders d) = Some row"
    and owner: "o_user_id row = user_id payload"
    and prow: "find (\<lambda>p. p_id p = o_product_id row) (products d) = Some prow"
    and s: "s \<notin> set [''pending'', ''completed'', ''cancelled'']"
    and oid: "sqlite_integer oid"
    and qf: "\<And>n. q = Some n \<Longrightarrow> sqlite_integer n"
  shows "\<exists>ord d'. UpdateOrder env now d oid \<lparr>ou_quantity = q, ou_status = Some s\<rparr> tok
                     = (Inr ord, d')
           \<and> o_status ord = o_status row
           \<and> map o_status (orders d') = map o_status (orders d)
           \<and> (\<forall>n. q = Some n \<and> 1 \<le> n \<longrightarrow> o_quantity ord = n)"
proof -
  have st: "map o_status (update_orders oid a b None now rows) = map o_status rows" for a b rows
    by (induction rows) (auto simp: update_orders_def set_order_def)
  let ?upd = "\<lparr>ou_quantity = q, ou_status = Some s\<rparr>"
  have fits: "accepted_quantity ?upd = None \<or> sqlite_integer (the (accepted_quantity ?upd))"
    using qf by (cases q) (auto simp: accepted_quantity_def)
  show ?thesis
    using UpdateOrder_owner [OF auth row owner prow oid fits] accepted_invalid(1) [OF s, of q]
    by (auto simp: st set_order_def order_of_def accepted_quantity_def)
qed

lemma UpdateOrder_invalid_quantity_with_product:
  assumes auth: "authenticate_user env now tok = Inr payload"
    and row: "find (\<lambda>r. o_id r = oid) (orders d) = Some row"
    and owner: "o_user_id row = user_id payload"
    and prow: "find (\<lambda>p. p_id p = o_product_id row) (products d) = Some prow"
    and n: "n < 1"
    and oid: "sqlite_integer oid"
  shows "\<exists>ord d'. UpdateOrder env now d oid \<lparr>ou_quantity = Some n, ou_status = st\<rparr> tok
                     = (Inr ord, d')
           \<and> o_quantity ord = o_quantity row \<and> o_total_price ord = o_total_price row
           \<and> map o_quantity (orders d') = map o_quantity (orders d)
           \<and> (\<forall>s. st = Some s \<and> s \<in> set [''pending'', ''completed'', ''cancelled'']
                  \<longrightarrow> o_status ord = s)"
proof -
  have qt: "map o_quantity (update_orders oid None None c now rows) = map o_quantity rows"
    for c rows
    by (induction rows) (auto simp: update_orders_def set_order_def)
  let ?upd = "\<lparr>ou_quantity = Some n, ou_status = st\<rparr>"
  have fits: "accepted_quantity ?upd = None \<or> sqlite_integer (the (accepted_quantity ?upd))"
    using accepted_invalid(2) [OF n, of st] by simp
  show ?thesis
    using UpdateOrder_owner [OF auth row owner prow oid fits] accepted_invalid(2) [OF n, of st]
    by (auto simp: qt set_order_def order_of_def accepted_status_def)
qed

text \<open>
  Claim C6. An update by the owner with a status outside the three names, or a quantity
  below 1, is to drop that field without a fault. The field is dropped; but after its
  write \<^verbatim>\<open>UpdateOrder\<close> reads the order back through the join with \<^verbatim>\<open>products\<close> and uses
  the row without the test for \<^verbatim>\<open>None\<close> that \<^verbatim>\<open>GetOrderById\<close> makes. In \<open>db_orphan\<close>,
  which \<^verbatim>\<open>DeleteProduct\<close> leaves behind (\<open>run_orphan\<close>), the owner's update with the
  status \<^verbatim>\<open>bogus\<close> ends in \<^verbatim>\<open>TypeError\<close>, and so does one with quantity 0 and a valid
  status, after it has stored the status. In \<open>db_ordered\<close>, where the product row exists,
  the same call returns the order unchanged.
\<close>

theorem UpdateOrder_fails_on_orphaned_order:
  "find (\<lambda>r. o_id r = 1) (orders db_orphan) = Some order1
   \<and> o_user_id order1 = user_id bob_claims
   \<and> UpdateOrder demo_env 0 db_orphan 1 \<lparr>ou_quantity = None, ou_status = Some ''bogus''\<rparr>
        (Some bob_token) = (Inl TypeError, db_orphan)
   \<and> UpdateOrder demo_env 0 db_orphan 1 \<lparr>ou_quantity = Some 0, ou_status = Some ''completed''\<rparr>
        (Some bob_token)
       = (Inl TypeError, db_orphan\<lparr>orders := [order1\<lparr>o_status := ''completed''\<rparr>]\<rparr>)
   \<and> UpdateOrder demo_env 0 db_ordered 1 \<lparr>ou_quantity = None, ou_status = Some ''bogus''\<rparr>
        (Some bob_token) = (Inr (order_of order1 widget), db_ordered)
   \<and> GetOrderById demo_env 0 db_orphan 1 (Some bob_token) = Inl (ResourceNotFound ''order'')"
  by (simp add: UpdateOrder_def GetOrderById_def auth_bob select_orders_join_def
      update_orders_def set_order_def db_orphan_def demo_defs sqlite_integer_def)

theorem UpdateOrder_fails_on_orphaned_order_witness:
  "fst (UpdateOrder demo_env 0 db_orphan 1 \<lparr>ou_quantity = None, ou_status = Some ''bogus''\<rparr>
        (Some bob_token)) = Inl TypeError
   \<and> fst (UpdateOrder demo_env 0 db_ordered 1 \<lparr>ou_quantity = None, ou_status = Some ''bogus''\<rparr>
        (Some bob_token)) = Inr (order_of order1 widget)"
  using UpdateOrder_fails_on_orphaned_order by simp

end
